theory Spec2Isabelle
  imports Main
begin

section \<open>JavaScript values\<close>

text \<open>
  The values the library handles: what the XML parser returns (objects, arrays and
  strings), the caller's arguments, and \<open>undefined\<close> for an omitted argument. An object is
  its list of properties in insertion order. Numbers are the integer-valued ones (the
  default quantity \<open>1\<close>, the default page size \<open>100\<close>); strings are lists of 8-bit
  characters.
\<close>

datatype jv =
    JUndef
  | JNull
  | JBool bool
  | JNum int
  | JStr string
  | JArr "jv list"
  | JObj "(string \<times> jv) list"

text \<open>
  Modelled from the spec: the error class \<open>CBWTNSError\<close> of \<open>error.js\<close>, a file of the
  repository that is not among the sources. The spec has a failed HTTP request surface
  ``as an error carrying the status text'', so the constructor \<open>CBWTNSError\<close> below keeps
  the argument that \<open>new BWError.CBWTNSError(arg)\<close> is given. The other things that can be
  thrown are \<open>new Error(msg)\<close>, the \<open>TypeError\<close> of the runtime (a property read on
  \<open>undefined\<close> or \<open>null\<close>, a call of something that is no function), and the rejection
  of \<open>fetch\<close> itself when no HTTP response arrives.
\<close>

datatype thrown =
    Error string
  | TypeError
  | CBWTNSError string
  | FetchError string

text \<open>The result of awaiting an async function: its promise is fulfilled, is rejected, or
  is never settled.\<close>

datatype 'a outcome = Returned 'a | Threw thrown | Pending

text \<open>\<open>!x\<close> is \<open>\<not> truthy x\<close>.\<close>

fun truthy :: "jv \<Rightarrow> bool" where
  "truthy JUndef = False"
| "truthy JNull = False"
| "truthy (JBool b) = b"
| "truthy (JNum n) = (n \<noteq> 0)"
| "truthy (JStr s) = (s \<noteq> [])"
| "truthy (JArr xs) = True"
| "truthy (JObj kvs) = True"

text \<open>
  \<open>x.k\<close> for the property names the library reads (none of them is a built-in property of
  a string, an array, a number or a boolean): a \<open>TypeError\<close> on \<open>undefined\<close> and \<open>null\<close>,
  the property's value on an object that has it, \<open>undefined\<close> otherwise.
\<close>

fun get_prop :: "jv \<Rightarrow> string \<Rightarrow> thrown + jv" where
  "get_prop JUndef k = Inl TypeError"
| "get_prop JNull k = Inl TypeError"
| "get_prop (JObj kvs) k = Inr (case map_of kvs k of None \<Rightarrow> JUndef | Some v \<Rightarrow> v)"
| "get_prop v k = Inr JUndef"

text \<open>\<open>x.k1.k2. ... .kn\<close>, left to right.\<close>

fun get_path :: "jv \<Rightarrow> string list \<Rightarrow> thrown + jv" where
  "get_path v [] = Inr v"
| "get_path v (k # ks) = (case get_prop v k of Inl e \<Rightarrow> Inl e | Inr u \<Rightarrow> get_path u ks)"

text \<open>\<open>obj.k = v\<close> on an object: the property is replaced where it stands, or added last.\<close>

fun set_field :: "(string \<times> jv) list \<Rightarrow> string \<Rightarrow> jv \<Rightarrow> (string \<times> jv) list" where
  "set_field [] k v = [(k, v)]"
| "set_field ((k', v') # kvs) k v =
     (if k' = k then (k, v) # kvs else (k', v') # set_field kvs k v)"

text \<open>\<open>x instanceof Array\<close>.\<close>

fun instanceof_Array :: "jv \<Rightarrow> bool" where
  "instanceof_Array (JArr xs) = True"
| "instanceof_Array v = False"

subsection \<open>Conversion to string\<close>

fun nat_to_string :: "nat \<Rightarrow> string" where
  "nat_to_string n =
     (if n < 10 then [''0123456789'' ! n]
      else nat_to_string (n div 10) @ [''0123456789'' ! (n mod 10)])"

declare nat_to_string.simps [simp del]

definition int_to_string :: "int \<Rightarrow> string" where
  "int_to_string i = (if i < 0 then CHR ''-'' # nat_to_string (nat (- i)) else nat_to_string (nat i))"

fun join_comma :: "string list \<Rightarrow> string" where
  "join_comma [] = []"
| "join_comma [s] = s"
| "join_comma (s # t # ss) = s @ CHR '','' # join_comma (t # ss)"

text \<open>
  \<open>String(x)\<close>, as a template literal \<open>`${x}`\<close> and \<open>x + ':'\<close> compute it. An array is
  its elements joined by commas, \<open>undefined\<close> and \<open>null\<close> elements giving the empty string;
  a plain object is \<open>[object Object]\<close>.
\<close>

fun js_to_string :: "jv \<Rightarrow> string" where
  "js_to_string JUndef = ''undefined''"
| "js_to_string JNull = ''null''"
| "js_to_string (JBool b) = (if b then ''true'' else ''false'')"
| "js_to_string (JNum n) = int_to_string n"
| "js_to_string (JStr s) = s"
| "js_to_string (JArr xs) =
     join_comma (map (\<lambda>x. if x = JUndef \<or> x = JNull then [] else js_to_string x) xs)"
| "js_to_string (JObj kvs) = ''[object Object]''"

text \<open>
  \<open>x == lit\<close> for a string literal \<open>lit\<close> that is not a numeral (\<open>'RECEIVED'\<close>,
  \<open>'COMPLETE'\<close>): strings compare by content, arrays and objects through their string
  conversion, and \<open>undefined\<close>, \<open>null\<close>, booleans and numbers are never equal to it.
\<close>

fun loose_eq_lit :: "jv \<Rightarrow> string \<Rightarrow> bool" where
  "loose_eq_lit (JStr s) lit = (s = lit)"
| "loose_eq_lit (JArr xs) lit = (js_to_string (JArr xs) = lit)"
| "loose_eq_lit (JObj kvs) lit = (js_to_string (JObj kvs) = lit)"
| "loose_eq_lit v lit = False"


text \<open>A \<open>map\<close> whose callback can throw: the first element that throws ends it.\<close>

fun map_throw :: "('a \<Rightarrow> thrown + 'b) \<Rightarrow> 'a list \<Rightarrow> thrown + 'b list" where
  "map_throw f [] = Inr []"
| "map_throw f (x # xs) =
     (case f x of
        Inl e \<Rightarrow> Inl e
      | Inr y \<Rightarrow> (case map_throw f xs of Inl e \<Rightarrow> Inl e | Inr ys \<Rightarrow> Inr (y # ys)))"

section \<open>The libraries and the network\<close>

record hdrs =
  Authorization :: string
  Content_Type :: string

text \<open>A call \<open>fetch(url, { headers, method, body })\<close>; \<open>method\<close> is \<open>GET\<close> when the call
  gives none.\<close>

record request =
  rq_method :: string
  rq_url :: string
  rq_headers :: hdrs
  rq_body :: "string option"

text \<open>What \<open>await fetch(...)\<close> gives: a rejection, or a response with its \<open>ok\<close> flag, its
  \<open>statusText\<close> and the body that \<open>res.text()\<close> reads.\<close>

datatype response =
    NetworkFailure string
  | HttpResponse bool string string

text \<open>
  The collaborators the library calls and the source leaves to other packages:
  \<open>xmlJS.xml2js(text, { compact: true })\<close>, which returns an object or throws on XML that
  is not well-formed; \<open>xmlJS.js2xml(obj, { compact: true })\<close>; the global \<open>isNaN\<close>; the
  base64 encoding of \<open>Buffer\<close>; and the server, whose answer to a request may depend on
  the requests made before it.
\<close>

record env =
  xml2js :: "string \<Rightarrow> string + (string \<times> jv) list"
  js2xml :: "jv \<Rightarrow> string"
  isNaN :: "jv \<Rightarrow> bool"
  base64 :: "string \<Rightarrow> string"
  network :: "request list \<Rightarrow> request \<Rightarrow> response"

text \<open>\<open>fetch\<close>: the request is appended to the log of requests issued so far.\<close>

definition fetch :: "env \<Rightarrow> request \<Rightarrow> request list \<Rightarrow> response \<times> request list" where
  "fetch E rq tr = (network E tr rq, tr @ [rq])"

section \<open>Response wrappers\<close>

text \<open>
  \<open>class CBWResponse\<close>. \<open>textValue\<close> is a string: every caller passes \<open>await res.text()\<close>.
  \<open>parses\<close> is not a field of the source: it counts the assignments
  \<open>this.json = xmlJS.xml2js(...)\<close> that were carried out.
\<close>

record CBWResponse =
  textValue :: string
  json :: jv
  accId :: jv
  site :: jv
  sippeerId :: jv
  options :: jv
  headers :: hdrs
  baseUrl :: string
  parses :: nat

definition v_CBWResponse :: "string \<Rightarrow> thrown" where
  "v_CBWResponse param = Error (''Class CBWResponse: Not valid param: '' @ param)"

text \<open>\<open>set text(text)\<close>.\<close>

definition set_text :: "'a CBWResponse_scheme \<Rightarrow> string \<Rightarrow> 'a CBWResponse_scheme" where
  "set_text w t = w\<lparr>textValue := t, json := JNull\<rparr>"

text \<open>The constructor of \<open>CBWResponse\<close>; a default \<open>= v(...)\<close> fires on \<open>undefined\<close> only,
  and the defaults are evaluated left to right. \<open>ext\<close> is what a subclass adds.\<close>

definition new_CBWResponse ::
  "string \<Rightarrow> jv \<Rightarrow> jv \<Rightarrow> jv \<Rightarrow> jv \<Rightarrow> hdrs \<Rightarrow> string \<Rightarrow> 'a \<Rightarrow> thrown + 'a CBWResponse_scheme" where
  "new_CBWResponse text a s p opts h b ext =
     (if a = JUndef then Inl (v_CBWResponse ''accId'')
      else if s = JUndef then Inl (v_CBWResponse ''site'')
      else if p = JUndef then Inl (v_CBWResponse ''sippeerId'')
      else if opts = JUndef then Inl (v_CBWResponse ''options'')
      else Inr \<lparr>textValue = text, json = JNull, accId = a, site = s, sippeerId = p,
                options = opts, headers = h, baseUrl = b, parses = 0, \<dots> = ext\<rparr>)"

text \<open>\<open>toJSON()\<close>, with the wrapper as it is afterwards.\<close>

definition toJSON ::
  "env \<Rightarrow> 'a CBWResponse_scheme \<Rightarrow> (thrown + jv) \<times> 'a CBWResponse_scheme" where
  "toJSON E w =
     (if textValue w = [] then (Inr JNull, w)
      else if \<not> truthy (json w) then
        (case xml2js E (textValue w) of
           Inl m \<Rightarrow> (Inl (Error m), w)
         | Inr kvs \<Rightarrow> (Inr (JObj kvs), w\<lparr>json := JObj kvs, parses := parses w + 1\<rparr>))
      else (Inr (json w), w))"

subsection \<open>Telephone-number listing\<close>

record CBWTNSResponse = CBWResponse +
  nextIndex :: nat

definition new_CBWTNSResponse ::
  "string \<Rightarrow> jv \<Rightarrow> jv \<Rightarrow> jv \<Rightarrow> jv \<Rightarrow> hdrs \<Rightarrow> string \<Rightarrow> thrown + CBWTNSResponse" where
  "new_CBWTNSResponse text a s p opts h b =
     new_CBWResponse text a s p opts h b (CBWTNSResponse.fields 0)"

text \<open>\<open>get Numbers()\<close> of \<open>CBWTNSResponse\<close>: first what it computes from \<open>this.json\<close>
  once \<open>this.toJSON()\<close> gave a parse, then the getter.\<close>

definition TNS_numbers_of :: "jv \<Rightarrow> thrown + jv" where
  "TNS_numbers_of j =
     (case get_path j
             [''SipPeerTelephoneNumbersResponse'', ''SipPeerTelephoneNumbers'',
              ''SipPeerTelephoneNumber''] of
        Inl e \<Rightarrow> Inl e
      | Inr (JArr items) \<Rightarrow>
          (case map_throw (\<lambda>item. get_path item [''FullNumber'', ''_text'']) items of
             Inl e \<Rightarrow> Inl e
           | Inr ns \<Rightarrow> Inr (JArr ns))
      | Inr item \<Rightarrow>
          (case get_path item [''FullNumber'', ''_text''] of
             Inl e \<Rightarrow> Inl e
           | Inr n \<Rightarrow> Inr (JArr [n])))"

definition TNS_Numbers ::
  "env \<Rightarrow> CBWTNSResponse \<Rightarrow> (thrown + jv) \<times> CBWTNSResponse" where
  "TNS_Numbers E w =
     (case toJSON E w of
        (Inl e, w') \<Rightarrow> (Inl e, w')
      | (Inr j, w') \<Rightarrow>
          if \<not> truthy j then (Inr JNull, w') else (TNS_numbers_of (json w'), w'))"


text \<open>
  \<open>this.regex.exec(s)[1]\<close> for \<open>/<(.+)>/\<close>: from the leftmost \<open><\<close> that can start a
  match, the longest run of one or more characters other than line terminators that is
  followed by \<open>>\<close>. \<open>None\<close> when \<open>exec\<close> returns \<open>null\<close>.
\<close>

definition line_terminator :: "char \<Rightarrow> bool" where
  "line_terminator c = (c = CHR 0x0A \<or> c = CHR 0x0D)"

definition greedy_group :: "string \<Rightarrow> string option" where
  "greedy_group cs =
     (case dropWhile (\<lambda>c. c \<noteq> CHR ''>'') (rev (takeWhile (\<lambda>c. \<not> line_terminator c) cs)) of
        [] \<Rightarrow> None
      | _ # p \<Rightarrow> if p = [] then None else Some (rev p))"

fun regex_exec :: "string \<Rightarrow> string option" where
  "regex_exec [] = None"
| "regex_exec (c # cs) =
     (if c = CHR ''<'' then
        (case greedy_group cs of Some g \<Rightarrow> Some g | None \<Rightarrow> regex_exec cs)
      else regex_exec cs)"

text \<open>\<open>x || {}\<close>.\<close>

definition or_empty :: "jv \<Rightarrow> jv" where
  "or_empty x = (if truthy x then x else JObj [])"

text \<open>\<open>((((j || {}).SipPeerTelephoneNumbersResponse || {}).Links || {}).next || {})._text\<close>.\<close>

definition next_link_text :: "jv \<Rightarrow> thrown + jv" where
  "next_link_text j =
     (case get_prop (or_empty j) ''SipPeerTelephoneNumbersResponse'' of
        Inl e \<Rightarrow> Inl e
      | Inr a \<Rightarrow>
     (case get_prop (or_empty a) ''Links'' of
        Inl e \<Rightarrow> Inl e
      | Inr b \<Rightarrow>
     (case get_prop (or_empty b) ''next'' of
        Inl e \<Rightarrow> Inl e
      | Inr c \<Rightarrow> get_prop (or_empty c) ''_text'')))"

text \<open>The request of \<open>fetch(link, { headers: _this.headers })\<close>.\<close>

definition page_request :: "hdrs \<Rightarrow> string \<Rightarrow> request" where
  "page_request h link =
     \<lparr>rq_method = ''GET'', rq_url = link, rq_headers = h, rq_body = None\<rparr>"

text \<open>What \<open>next()\<close> returns: \<open>{ done: true }\<close>, or \<open>{ value: promise, done: false }\<close> where
  the promise is the async function already started, its \<open>fetch\<close> issued.\<close>

datatype 'p iter_result = Done | Yield 'p

text \<open>
  \<open>next()\<close> up to the first \<open>await\<close>: the result, the wrapper and the request log
  afterwards. The promise it yields is represented by what its \<open>fetch\<close> will give.
\<close>

definition TNS_next ::
  "env \<Rightarrow> CBWTNSResponse \<Rightarrow> request list \<Rightarrow>
     (thrown + response iter_result) \<times> CBWTNSResponse \<times> request list" where
  "TNS_next E w tr =
     (case toJSON E w of
        (Inl e, w1) \<Rightarrow> (Inl e, w1, tr)
      | (Inr j, w1) \<Rightarrow>
     (case next_link_text j of
        Inl e \<Rightarrow> (Inl e, w1, tr)
      | Inr t \<Rightarrow>
          if \<not> truthy t then (Inr Done, w1, tr)
          else
     (case toJSON E w1 of
        (Inl e, w2) \<Rightarrow> (Inl e, w2, tr)
      | (Inr j2, w2) \<Rightarrow>
     (case get_path j2 [''SipPeerTelephoneNumbersResponse'', ''Links'', ''next'', ''_text''] of
        Inl e \<Rightarrow> (Inl e, w2, tr)
      | Inr t2 \<Rightarrow>
     (case regex_exec (js_to_string t2) of
        None \<Rightarrow> (Inl TypeError, w2, tr)
      | Some link \<Rightarrow>
     (case fetch E (page_request (headers w2) link) tr of
        (res, tr') \<Rightarrow> (Inr (Yield res), w2, tr')))))))"

text \<open>
  The rest of the async function of \<open>next()\<close>, run when the yielded promise is awaited: what
  the promise settles to (the \<open>value\<close> of the object it is fulfilled with, or the
  rejection) and the iterated wrapper \<open>_this\<close> afterwards.
\<close>

definition TNS_next_await ::
  "response \<Rightarrow> CBWTNSResponse \<Rightarrow> (thrown + CBWTNSResponse) \<times> CBWTNSResponse" where
  "TNS_next_await res w =
     (case res of
        NetworkFailure m \<Rightarrow> (Inl (FetchError m), w)
      | HttpResponse ok statusText body \<Rightarrow>
          if \<not> ok then (Inl (CBWTNSError statusText), w)
          else
            (let w1 = set_text w body;
                 w2 = w1\<lparr>nextIndex := nextIndex w1 + 1\<rparr>
             in (new_CBWTNSResponse (textValue w2) (accId w2) (site w2) (sippeerId w2)
                   (options w2) (headers w2) (baseUrl w2), w2)))"

subsection \<open>Order, check-order and disconnect responses\<close>

text \<open>The three constructors are the same: \<open>super(...)\<close>, then \<open>this.toJSON()\<close>.\<close>

definition new_parsed_response ::
  "env \<Rightarrow> string \<Rightarrow> jv \<Rightarrow> jv \<Rightarrow> jv \<Rightarrow> jv \<Rightarrow> hdrs \<Rightarrow> string \<Rightarrow> thrown + CBWResponse" where
  "new_parsed_response E text a s p opts h b =
     (case new_CBWResponse text a s p opts h b () of
        Inl e \<Rightarrow> Inl e
      | Inr w \<Rightarrow> (case toJSON E w of (Inl e, w') \<Rightarrow> Inl e | (Inr j, w') \<Rightarrow> Inr w'))"

definition new_CBWOrderResponse ::
  "env \<Rightarrow> string \<Rightarrow> jv \<Rightarrow> jv \<Rightarrow> jv \<Rightarrow> jv \<Rightarrow> hdrs \<Rightarrow> string \<Rightarrow> thrown + CBWResponse" where
  "new_CBWOrderResponse = new_parsed_response"

definition new_CBWCheckOrderResponse ::
  "env \<Rightarrow> string \<Rightarrow> jv \<Rightarrow> jv \<Rightarrow> jv \<Rightarrow> jv \<Rightarrow> hdrs \<Rightarrow> string \<Rightarrow> thrown + CBWResponse" where
  "new_CBWCheckOrderResponse = new_parsed_response"

definition new_CBWDisconnectOrderResponse ::
  "env \<Rightarrow> string \<Rightarrow> jv \<Rightarrow> jv \<Rightarrow> jv \<Rightarrow> jv \<Rightarrow> hdrs \<Rightarrow> string \<Rightarrow> thrown + CBWResponse" where
  "new_CBWDisconnectOrderResponse = new_parsed_response"

text \<open>\<open>get Id()\<close> and \<open>get Status()\<close> of \<open>CBWOrderResponse\<close>.\<close>

definition Order_Id :: "CBWResponse \<Rightarrow> thrown + jv" where
  "Order_Id w =
     (if \<not> truthy (json w) then Inr JNull
      else get_path (json w) [''OrderResponse'', ''Order'', ''id'', ''_text''])"

definition Order_Status :: "CBWResponse \<Rightarrow> thrown + jv" where
  "Order_Status w =
     (if \<not> truthy (json w) then Inr JNull
      else get_path (json w) [''OrderResponse'', ''OrderStatus'', ''_text''])"

text \<open>\<open>get Status()\<close> and \<open>get Numbers()\<close> of \<open>CBWCheckOrderResponse\<close>.\<close>

definition CheckOrder_Status :: "CBWResponse \<Rightarrow> thrown + jv" where
  "CheckOrder_Status w =
     (if \<not> truthy (json w) then Inr JNull
      else get_path (json w) [''OrderResponse'', ''OrderStatus'', ''_text''])"

definition CheckOrder_Numbers :: "CBWResponse \<Rightarrow> thrown + jv" where
  "CheckOrder_Numbers w =
     (if \<not> truthy (json w) then Inr JNull
      else
        (case get_path (json w) [''OrderResponse'', ''CompletedNumbers'', ''TelephoneNumber''] of
           Inl e \<Rightarrow> Inl e
         | Inr (JArr items) \<Rightarrow>
             (case map_throw
                     (\<lambda>item. case get_path item [''FullNumber'', ''_text''] of
                                Inl e \<Rightarrow> Inl e
                              | Inr n \<Rightarrow> Inr (JStr (''+1'' @ js_to_string n))) items of
                Inl e \<Rightarrow> Inl e
              | Inr ns \<Rightarrow> Inr (JArr ns))
         | Inr item \<Rightarrow>
             (case get_path item [''FullNumber'', ''_text''] of
                Inl e \<Rightarrow> Inl e
              | Inr n \<Rightarrow> Inr (JStr (''+1'' @ js_to_string n)))))"

text \<open>\<open>get Status()\<close> of \<open>CBWDisconnectOrderResponse\<close>.\<close>

definition Disconnect_Status :: "CBWResponse \<Rightarrow> thrown + jv" where
  "Disconnect_Status w =
     (if \<not> truthy (json w) then Inr JNull
      else get_path (json w)
             [''DisconnectTelephoneNumberOrderResponse'', ''OrderStatus'', ''_text''])"


subsection \<open>The unified allocation result\<close>

text \<open>\<open>xs.indexOf(x)\<close>, on a string (for a one-character \<open>x\<close>) and on an array.\<close>

fun indexOf :: "'a list \<Rightarrow> 'a \<Rightarrow> int" where
  "indexOf [] c = - 1"
| "indexOf (x # xs) c =
     (if x = c then 0 else (let i = indexOf xs c in if i < 0 then - 1 else i + 1))"

text \<open>\<open>s.substring(a, b)\<close>: both indices are clamped to the string, and swapped when the
  first is the larger.\<close>

definition substring :: "string \<Rightarrow> int \<Rightarrow> int \<Rightarrow> string" where
  "substring s a b =
     (let n = int (length s);
          a' = max 0 (min a n);
          b' = max 0 (min b n);
          lo = min a' b';
          hi = max a' b'
      in take (nat (hi - lo)) (drop (nat lo) s))"

text \<open>
  \<open>UnifiedResponse._parseAreaCode(input)\<close>. A string has \<open>indexOf\<close> and \<open>substring\<close>; an
  array has \<open>indexOf\<close> but no \<open>substring\<close>; anything else has neither.
\<close>

definition parseAreaCode :: "jv \<Rightarrow> thrown + jv" where
  "parseAreaCode input =
     (case input of
        JStr s \<Rightarrow>
          (let start = indexOf s (CHR ''('');
               end' = indexOf s (CHR '')'')
           in if start > - 1 \<and> end' > - 1 then Inr (JStr (substring s (start + 1) end'))
              else Inr JNull)
      | JArr xs \<Rightarrow>
          (let start = indexOf xs (JStr ''('');
               end' = indexOf xs (JStr '')'')
           in if start > - 1 \<and> end' > - 1 then Inl TypeError else Inr JNull)
      | _ \<Rightarrow> Inl TypeError)"

text \<open>The object pushed for one \<open>item\<close> in \<open>get Response()\<close>.\<close>

definition did_entry :: "jv \<Rightarrow> jv \<Rightarrow> thrown + jv" where
  "did_entry obj item =
     (case get_path obj [''OrderResponse'', ''Order'', ''PeerId'', ''_text''] of
        Inl e \<Rightarrow> Inl e
      | Inr peer \<Rightarrow>
     (case get_prop obj ''order_id'' of
        Inl e \<Rightarrow> Inl e
      | Inr did \<Rightarrow>
     (case get_path item [''FullNumber'', ''_text''] of
        Inl e \<Rightarrow> Inl e
      | Inr n \<Rightarrow>
     (case get_path obj [''OrderResponse'', ''Summary'', ''_text''] of
        Inl e \<Rightarrow> Inl e
      | Inr summary \<Rightarrow>
     (case parseAreaCode summary of
        Inl e \<Rightarrow> Inl e
      | Inr area \<Rightarrow>
          Inr (JObj [(''peerId'', peer), (''didId'', did),
                     (''e164'', JStr (''+1'' @ js_to_string n)),
                     (''countryCodeA3'', JStr ''USA''), (''areaCode'', area)]))))))"

text \<open>\<open>get Response()\<close> of a \<open>UnifiedResponse\<close> built on \<open>obj\<close>.\<close>

definition Unified_Response :: "jv \<Rightarrow> thrown + jv" where
  "Unified_Response obj =
     (case get_path obj [''OrderResponse'', ''CompletedNumbers'', ''TelephoneNumber''] of
        Inl e \<Rightarrow> Inl e
      | Inr nums \<Rightarrow>
     (case (case nums of
              JArr items \<Rightarrow> Inr items
            | _ \<Rightarrow>
                (case get_path nums [''FullNumber'', ''_text''] of
                   Inl e \<Rightarrow> Inl e
                 | Inr n \<Rightarrow> Inr [JObj [(''FullNumber'', JObj [(''_text'', n)])]])) of
        Inl e \<Rightarrow> Inl e
      | Inr numbers \<Rightarrow>
     (case map_throw (did_entry obj) numbers of
        Inl e \<Rightarrow> Inl e
      | Inr dids \<Rightarrow>
          Inr (JObj [(''dids'', JArr dids), (''resultCount'', JNum (int (length numbers)))]))))"

section \<open>The client\<close>

text \<open>\<open>class CBandwidth\<close>; the field \<open>cl_x\<close> is \<open>this.x\<close>.\<close>

record CBandwidth =
  cl_headers :: hdrs
  cl_site :: jv
  cl_accId :: jv
  cl_options :: jv
  cl_sippeerId :: jv
  cl_baseUrl :: string

definition v_CBandwidth :: "string \<Rightarrow> thrown" where
  "v_CBandwidth param = Error (''Class CBandwidth: Not valid param: '' @ param)"

text \<open>The constructor; an omitted argument is \<open>undefined\<close>.\<close>

definition new_CBandwidth ::
  "env \<Rightarrow> jv \<Rightarrow> jv \<Rightarrow> jv \<Rightarrow> jv \<Rightarrow> jv \<Rightarrow> jv \<Rightarrow> thrown + CBandwidth" where
  "new_CBandwidth E login pass a s opts p =
     (if login = JUndef then Inl (v_CBandwidth ''login'')
      else if pass = JUndef then Inl (v_CBandwidth ''password'')
      else if a = JUndef then Inl (v_CBandwidth ''accountId'')
      else if s = JUndef then Inl (v_CBandwidth ''site-id'')
      else Inr \<lparr>cl_headers =
                  \<lparr>Authorization =
                     ''Basic '' @ base64 E (js_to_string login @ '':'' @ js_to_string pass),
                   Content_Type = ''application/xml''\<rparr>,
                cl_site = s, cl_accId = a,
                cl_options = (if opts = JUndef then JObj [(''pageSize'', JNum 100)] else opts),
                cl_sippeerId = p,
                cl_baseUrl = ''https://dashboard.bandwidth.com/api''\<rparr>)"

text \<open>The request of \<open>getSipPeersTNS\<close>, for the SIP-peer id and the page size.\<close>

definition tns_request :: "CBandwidth \<Rightarrow> jv \<Rightarrow> jv \<Rightarrow> request" where
  "tns_request this p pageSize =
     \<lparr>rq_method = ''GET'',
      rq_url = cl_baseUrl this @ ''/accounts/'' @ js_to_string (cl_accId this)
        @ ''/sites/'' @ js_to_string (cl_site this)
        @ ''/sippeers/'' @ js_to_string p
        @ ''/tns?page=1&size='' @ js_to_string pageSize,
      rq_headers = cl_headers this, rq_body = None\<rparr>"

text \<open>\<open>getSipPeersTNS(sippeerId)\<close>: what the call settles to and the request log.\<close>

definition getSipPeersTNS ::
  "env \<Rightarrow> CBandwidth \<Rightarrow> jv \<Rightarrow> request list \<Rightarrow> (thrown + CBWTNSResponse) \<times> request list" where
  "getSipPeersTNS E this p tr =
     (if p = JUndef then (Inl (v_CBandwidth ''sippeer-id''), tr)
      else
     (case get_prop (cl_options this) ''pageSize'' of
        Inl e \<Rightarrow> (Inl e, tr)
      | Inr pageSize \<Rightarrow>
     (case fetch E (tns_request this p pageSize) tr of
        (NetworkFailure m, tr') \<Rightarrow> (Inl (FetchError m), tr')
      | (HttpResponse ok statusText body, tr') \<Rightarrow>
          if \<not> ok then (Inl (CBWTNSError statusText), tr')
          else (new_CBWTNSResponse body (cl_accId this) (cl_site this) p (cl_options this)
                  (cl_headers this) (cl_baseUrl this), tr'))))"


text \<open>
  The loop \<open>for (const item of resObject) { const res = await item;
  result.push(...res.value.Numbers); }\<close> of \<open>getSipPeersTNSAll\<close>. Nothing bounds the
  number of pages, so the model takes fuel: \<open>None\<close> when the fuel runs out before the loop
  ends. \<open>result.push\<close> needs \<open>result\<close> to be an array (\<open>Numbers\<close> is \<open>null\<close> on an
  empty body), and so does the spread.
\<close>

fun TNSAll_loop ::
  "nat \<Rightarrow> env \<Rightarrow> CBWTNSResponse \<Rightarrow> jv \<Rightarrow> request list \<Rightarrow>
     ((thrown + jv) \<times> request list) option" where
  "TNSAll_loop 0 E w result tr = None"
| "TNSAll_loop (Suc fuel) E w result tr =
     (case TNS_next E w tr of
        (Inl e, w1, tr1) \<Rightarrow> Some (Inl e, tr1)
      | (Inr Done, w1, tr1) \<Rightarrow> Some (Inr result, tr1)
      | (Inr (Yield res), w1, tr1) \<Rightarrow>
     (case TNS_next_await res w1 of
        (Inl e, w2) \<Rightarrow> Some (Inl e, tr1)
      | (Inr page, w2) \<Rightarrow>
     (case result of
        JArr rs \<Rightarrow>
          (case TNS_Numbers E page of
             (Inl e, page') \<Rightarrow> Some (Inl e, tr1)
           | (Inr (JArr ns), page') \<Rightarrow> TNSAll_loop fuel E w2 (JArr (rs @ ns)) tr1
           | (Inr other, page') \<Rightarrow> Some (Inl TypeError, tr1))
      | _ \<Rightarrow> Some (Inl TypeError, tr1))))"

text \<open>\<open>getSipPeersTNSAll(sippeerId)\<close>.\<close>

definition getSipPeersTNSAll ::
  "nat \<Rightarrow> env \<Rightarrow> CBandwidth \<Rightarrow> jv \<Rightarrow> request list \<Rightarrow>
     ((thrown + jv) \<times> request list) option" where
  "getSipPeersTNSAll fuel E this p tr =
     (if p = JUndef then Some (Inl (v_CBandwidth ''sippeer-id''), tr)
      else
     (case getSipPeersTNS E this p tr of
        (Inl e, tr1) \<Rightarrow> Some (Inl e, tr1)
      | (Inr resObject, tr1) \<Rightarrow>
     (case TNS_Numbers E resObject of
        (Inl e, w) \<Rightarrow> Some (Inl e, tr1)
      | (Inr result, w) \<Rightarrow> TNSAll_loop fuel E w result tr1)))"

text \<open>The value of the property \<open>k\<close> of an object.\<close>

definition field :: "(string \<times> jv) list \<Rightarrow> string \<Rightarrow> jv" where
  "field kvs k = (case map_of kvs k of None \<Rightarrow> JUndef | Some v \<Rightarrow> v)"

text \<open>The object that \<open>searchAndOrderDID\<close> serialises, for the properties \<open>q\<close> of the
  query after \<open>q.quantity\<close> is set; \<open>None\<close> is \<open>null\<close>.\<close>

definition order_object :: "CBandwidth \<Rightarrow> (string \<times> jv) list \<Rightarrow> jv option" where
  "order_object this q =
     (let obj1 =
            (if truthy (field q ''areaCode'') then
               Some (JObj [(''Order'', JObj
                 [(''SiteId'', cl_site this), (''PeerId'', cl_sippeerId this),
                  (''AreaCodeSearchAndOrderType'', JObj
                     [(''AreaCode'', field q ''areaCode''),
                      (''Quantity'', field q ''quantity'')])])])
             else None)
      in if truthy (field q ''city'') \<and> truthy (field q ''state'') then
           Some (JObj [(''Order'', JObj
             [(''SiteId'', cl_site this), (''PeerId'', cl_sippeerId this),
              (''CitySearchAndOrderType'', JObj
                 [(''City'', field q ''city''), (''State'', field q ''state''),
                  (''Quantity'', field q ''quantity'')])])])
         else obj1)"

text \<open>\<open>q.quantity = (!q.quantity || isNaN(q.quantity)) ? 1 : q.quantity\<close>, on the
  properties of \<open>q\<close>.\<close>

definition with_quantity :: "env \<Rightarrow> (string \<times> jv) list \<Rightarrow> (string \<times> jv) list" where
  "with_quantity E kvs =
     set_field kvs ''quantity''
       (if \<not> truthy (field kvs ''quantity'') \<or> isNaN E (field kvs ''quantity'')
        then JNum 1 else field kvs ''quantity'')"

text \<open>The request of \<open>searchAndOrderDID\<close>, for the object to serialise.\<close>

definition order_request :: "env \<Rightarrow> CBandwidth \<Rightarrow> jv \<Rightarrow> request" where
  "order_request E this obj =
     \<lparr>rq_method = ''POST'',
      rq_url = cl_baseUrl this @ ''/accounts/'' @ js_to_string (cl_accId this) @ ''/orders'',
      rq_headers = cl_headers this, rq_body = Some (js2xml E obj)\<rparr>"

text \<open>
  \<open>searchAndOrderDID(q)\<close>. The file is in strict mode: \<open>q.quantity = ...\<close> throws a
  \<open>TypeError\<close> on a string, a number or a boolean, as the read does on \<open>null\<close>; an array
  takes the assignment and has none of the other properties.
\<close>

definition searchAndOrderDID ::
  "env \<Rightarrow> CBandwidth \<Rightarrow> jv \<Rightarrow> request list \<Rightarrow> (thrown + CBWResponse) \<times> request list" where
  "searchAndOrderDID E this q0 tr =
     (case (if q0 = JUndef then JObj [] else q0) of
        JObj kvs \<Rightarrow>
          (case order_object this (with_quantity E kvs) of
             None \<Rightarrow> (Inl (Error ''Not enough parameters''), tr)
           | Some obj \<Rightarrow>
          (case fetch E (order_request E this obj) tr of
             (NetworkFailure m, tr') \<Rightarrow> (Inl (FetchError m), tr')
           | (HttpResponse ok statusText body, tr') \<Rightarrow>
               if \<not> ok then (Inl (Error statusText), tr')
               else (new_CBWOrderResponse E body (cl_accId this) (cl_site this)
                       (cl_sippeerId this) (cl_options this) (cl_headers this)
                       (cl_baseUrl this), tr')))
      | JArr xs \<Rightarrow> (Inl (Error ''Not enough parameters''), tr)
      | _ \<Rightarrow> (Inl TypeError, tr))"

text \<open>The request of \<open>checkOrder\<close>.\<close>

definition check_request :: "CBandwidth \<Rightarrow> jv \<Rightarrow> request" where
  "check_request this orderid =
     \<lparr>rq_method = ''GET'',
      rq_url = cl_baseUrl this @ ''/accounts/'' @ js_to_string (cl_accId this)
        @ ''/orders/'' @ js_to_string orderid @ ''?tndetail=true'',
      rq_headers = cl_headers this, rq_body = None\<rparr>"

text \<open>\<open>checkOrder(orderid)\<close>.\<close>

definition checkOrder ::
  "env \<Rightarrow> CBandwidth \<Rightarrow> jv \<Rightarrow> request list \<Rightarrow> (thrown + CBWResponse) \<times> request list" where
  "checkOrder E this orderid tr =
     (if orderid = JUndef then (Inl (v_CBandwidth ''orderid''), tr)
      else
     (case fetch E (check_request this orderid) tr of
        (NetworkFailure m, tr') \<Rightarrow> (Inl (FetchError m), tr')
      | (HttpResponse ok statusText body, tr') \<Rightarrow>
          if \<not> ok then (Inl (Error statusText), tr')
          else (new_CBWCheckOrderResponse E body (cl_accId this) (cl_site this)
                  (cl_sippeerId this) (cl_options this) (cl_headers this)
                  (cl_baseUrl this), tr')))"

text \<open>
  \<open>allocate(q)\<close>. The timer callback is an async function of its own: whatever it throws
  is lost and leaves the promise that \<open>allocate\<close> awaits unsettled, as does the callback
  ending without \<open>resolve\<close> or \<open>reject\<close>. A \<open>reject(x)\<close> is turned by
  \<open>.catch((err) => { return err; })\<close> into the value \<open>x\<close>; a \<open>reject\<close> after a
  \<open>resolve\<close> does nothing. The parse that \<open>check.toJSON()\<close> returns is an object or
  \<open>null\<close>.
\<close>

definition allocate ::
  "env \<Rightarrow> CBandwidth \<Rightarrow> jv \<Rightarrow> request list \<Rightarrow> jv outcome \<times> request list" where
  "allocate E this q tr =
     (case searchAndOrderDID E this (if q = JUndef then JObj [] else q) tr of
        (Inl e, tr1) \<Rightarrow> (Threw e, tr1)
      | (Inr order, tr1) \<Rightarrow>
     (case Order_Status order of
        Inl e \<Rightarrow> (Pending, tr1)
      | Inr status \<Rightarrow>
          if \<not> (truthy status \<and> loose_eq_lit status ''RECEIVED'') then (Pending, tr1)
          else
     (case Order_Id order of
        Inl e \<Rightarrow> (Pending, tr1)
      | Inr order_id \<Rightarrow>
     (case checkOrder E this order_id tr1 of
        (Inl e, tr2) \<Rightarrow> (Pending, tr2)
      | (Inr check, tr2) \<Rightarrow>
     (case CheckOrder_Status check of
        Inl e \<Rightarrow> (Pending, tr2)
      | Inr check_status \<Rightarrow>
          if loose_eq_lit check_status ''COMPLETE'' then
            (case toJSON E check of
               (Inr (JObj kvs), check') \<Rightarrow>
                 (case Unified_Response (JObj (set_field kvs ''order_id'' order_id)) of
                    Inl e \<Rightarrow> (Threw e, tr2)
                  | Inr r \<Rightarrow> (Returned r, tr2))
             | _ \<Rightarrow> (Pending, tr2))
          else
            (case get_prop check_status ''Response'' of
               Inl e \<Rightarrow> (Threw e, tr2)
             | Inr r \<Rightarrow> (Returned r, tr2)))))))"

text \<open>The array that \<open>numbers.map((item) => new Object({'_text': item}))\<close> builds;
  \<open>disconnect\<close> does not keep it.\<close>

definition wrapped_numbers :: "jv list \<Rightarrow> jv list" where
  "wrapped_numbers xs = map (\<lambda>item. JObj [(''_text'', item)]) xs"

text \<open>The object that \<open>disconnect\<close> serialises.\<close>

definition disconnect_object :: "jv \<Rightarrow> jv \<Rightarrow> jv" where
  "disconnect_object orderid numbers =
     JObj [(''DisconnectTelephoneNumberOrder'', JObj
       [(''CustomerOrderId'', orderid),
        (''DisconnectTelephoneNumberOrderType'', JObj
           [(''TelephoneNumberList'', JObj [(''TelephoneNumber'', numbers)])])])]"

text \<open>The request of \<open>disconnect\<close>.\<close>

definition disconnect_request :: "env \<Rightarrow> CBandwidth \<Rightarrow> jv \<Rightarrow> jv \<Rightarrow> request" where
  "disconnect_request E this orderid numbers =
     \<lparr>rq_method = ''POST'',
      rq_url = cl_baseUrl this @ ''/accounts/'' @ js_to_string (cl_accId this)
        @ ''/disconnects'',
      rq_headers = cl_headers this,
      rq_body = Some (js2xml E (disconnect_object orderid numbers))\<rparr>"

text \<open>\<open>disconnect(orderid, numbers)\<close>.\<close>

definition disconnect ::
  "env \<Rightarrow> CBandwidth \<Rightarrow> jv \<Rightarrow> jv \<Rightarrow> request list \<Rightarrow> (thrown + CBWResponse) \<times> request list" where
  "disconnect E this orderid numbers tr =
     (if orderid = JUndef then (Inl (v_CBandwidth ''orderid''), tr)
      else if numbers = JUndef then (Inl (v_CBandwidth ''numbers''), tr)
      else if \<not> instanceof_Array numbers then (Inl (Error ''Empty numbers array''), tr)
      else
     (case fetch E (disconnect_request E this orderid numbers) tr of
        (NetworkFailure m, tr') \<Rightarrow> (Inl (FetchError m), tr')
      | (HttpResponse ok statusText body, tr') \<Rightarrow>
          if \<not> ok then (Inl (Error statusText), tr')
          else (new_CBWDisconnectOrderResponse E body (cl_accId this) (cl_site this)
                  (cl_sippeerId this) (cl_options this) (cl_headers this)
                  (cl_baseUrl this), tr')))"

section \<open>Definitions used to state the properties\<close>

text \<open>One entry of \<open>dids\<close>, from its parts.\<close>

definition did_of :: "jv \<Rightarrow> jv \<Rightarrow> string \<Rightarrow> jv \<Rightarrow> jv" where
  "did_of peer order_id digits area =
     JObj [(''peerId'', peer), (''didId'', order_id), (''e164'', JStr (''+1'' @ digits)),
           (''countryCodeA3'', JStr ''USA''), (''areaCode'', area)]"

text \<open>What a \<open>Status\<close> getter gave is the status \<open>lit\<close>, by the comparison \<open>==\<close> of the
  source; a getter that threw gave no status.\<close>

definition status_is :: "thrown + jv \<Rightarrow> string \<Rightarrow> bool" where
  "status_is r lit = (case r of Inl e \<Rightarrow> False | Inr status \<Rightarrow> loose_eq_lit status lit)"

text \<open>
  What a parsed body contains at a path of element names: the value reached by descending
  through nested objects, if every name on the way is there.
\<close>

fun lookup_path :: "jv \<Rightarrow> string list \<Rightarrow> jv option" where
  "lookup_path v [] = Some v"
| "lookup_path (JObj kvs) (k # ks) =
     (case map_of kvs k of None \<Rightarrow> None | Some u \<Rightarrow> lookup_path u ks)"
| "lookup_path v (k # ks) = None"

definition next_link_path :: "string list" where
  "next_link_path = [''SipPeerTelephoneNumbersResponse'', ''Links'', ''next'', ''_text'']"

text \<open>The parsed body contains a next-link: there is a text, not empty, at the path of
  the \<open>next\<close> link.\<close>

definition has_next_link :: "jv \<Rightarrow> bool" where
  "has_next_link j = (case lookup_path j next_link_path of None \<Rightarrow> False | Some t \<Rightarrow> truthy t)"

text \<open>A wrapper that went through its constructor: none of the four values the
  constructor checks is \<open>undefined\<close>.\<close>

definition constructed :: "'a CBWResponse_scheme \<Rightarrow> bool" where
  "constructed w \<longleftrightarrow>
     accId w \<noteq> JUndef \<and> site w \<noteq> JUndef \<and> sippeerId w \<noteq> JUndef \<and> options w \<noteq> JUndef"

text \<open>
  The pages of a listing, as the eager operation meets them. \<open>pages_from E h text tr nss tr'\<close>:
  starting at a page with the body \<open>text\<close> when the request log is \<open>tr\<close>, and following
  each next-link with a successful fetch (headers \<open>h\<close>) until a page has none, the
  \<open>Numbers\<close> of the pages are the lists \<open>nss\<close>, in the order of the fetches, and the log
  ends as \<open>tr'\<close>.
\<close>

inductive pages_from ::
  "env \<Rightarrow> hdrs \<Rightarrow> string \<Rightarrow> request list \<Rightarrow> jv list list \<Rightarrow> request list \<Rightarrow> bool"
  for E :: env and h :: hdrs where
  last_page:
    "text \<noteq> [] \<Longrightarrow> xml2js E text = Inr kvs \<Longrightarrow> TNS_numbers_of (JObj kvs) = Inr (JArr ns) \<Longrightarrow>
     \<not> has_next_link (JObj kvs) \<Longrightarrow>
     pages_from E h text tr [ns] tr"
| next_page:
    "text \<noteq> [] \<Longrightarrow> xml2js E text = Inr kvs \<Longrightarrow> TNS_numbers_of (JObj kvs) = Inr (JArr ns) \<Longrightarrow>
     lookup_path (JObj kvs) next_link_path = Some t \<Longrightarrow> truthy t \<Longrightarrow>
     regex_exec (js_to_string t) = Some link \<Longrightarrow>
     network E tr (page_request h link) = HttpResponse True statusText body \<Longrightarrow>
     pages_from E h body (tr @ [page_request h link]) nss tr' \<Longrightarrow>
     pages_from E h text tr (ns # nss) tr'"

code_pred (modes: i \<Rightarrow> i \<Rightarrow> i \<Rightarrow> i \<Rightarrow> o \<Rightarrow> o \<Rightarrow> bool) pages_from .

text \<open>
  What is done to a wrapper from outside: its raw text is replaced (\<open>w.text = t\<close>), or its
  parsed structure is read (\<open>w.toJSON()\<close>). \<open>run_ops\<close> does a sequence of these on the
  wrapper of the source and gives what the reads returned and the wrapper at the end.
\<close>

datatype wrapper_op = SetText string | Read

fun run_ops ::
  "env \<Rightarrow> wrapper_op list \<Rightarrow> 'a CBWResponse_scheme \<Rightarrow>
     (thrown + jv) list \<times> 'a CBWResponse_scheme" where
  "run_ops E [] w = ([], w)"
| "run_ops E (SetText t # ops) w = run_ops E ops (set_text w t)"
| "run_ops E (Read # ops) w =
     (case toJSON E w of
        (r, w') \<Rightarrow> (case run_ops E ops w' of (rs, w'') \<Rightarrow> (r # rs, w'')))"

text \<open>What a read of the raw text \<open>t\<close> gives when nothing is kept from one read to the
  next: \<open>null\<close> for the empty text, the parse of \<open>t\<close>, or the parser's error.\<close>

definition parse_now :: "env \<Rightarrow> string \<Rightarrow> thrown + jv" where
  "parse_now E t =
     (if t = [] then Inr JNull
      else case xml2js E t of Inl m \<Rightarrow> Inl (Error m) | Inr kvs \<Rightarrow> Inr (JObj kvs))"

text \<open>The reads of a sequence, each answered from the raw text of its moment.\<close>

fun reads_uncached :: "env \<Rightarrow> wrapper_op list \<Rightarrow> string \<Rightarrow> (thrown + jv) list" where
  "reads_uncached E [] t = []"
| "reads_uncached E (SetText t' # ops) t = reads_uncached E ops t'"
| "reads_uncached E (Read # ops) t = parse_now E t # reads_uncached E ops t"

text \<open>
  How often the parsed structure is computed when it is computed only on a read that finds
  the raw text \<open>changed\<close> since the last parse (and has a text to parse that parses).
\<close>

fun recomputations :: "env \<Rightarrow> wrapper_op list \<Rightarrow> string \<Rightarrow> bool \<Rightarrow> nat" where
  "recomputations E [] t changed = 0"
| "recomputations E (SetText t' # ops) t changed = recomputations E ops t' True"
| "recomputations E (Read # ops) t changed =
     (if changed \<and> t \<noteq> [] \<and> \<not> isl (xml2js E t) then 1 + recomputations E ops t False
      else recomputations E ops t changed)"

text \<open>The store of the wrapper agrees with the flag: no parse is stored when the text has
  changed since the last parse, and the parse of the present text is stored otherwise.\<close>

definition in_sync :: "env \<Rightarrow> 'a CBWResponse_scheme \<Rightarrow> bool \<Rightarrow> bool" where
  "in_sync E w changed =
     (if changed then json w = JNull
      else textValue w \<noteq> [] \<and> xml2js E (textValue w) = Inr (case json w of JObj kvs \<Rightarrow> kvs | _ \<Rightarrow> [])
           \<and> json w = JObj (case json w of JObj kvs \<Rightarrow> kvs | _ \<Rightarrow> []))"

section \<open>Example collaborators and documents\<close>

text \<open>
  The properties hold for every parser, serialiser and server. The examples below run the
  operations against these: a parser that knows the compact form of a few documents and
  rejects every other text, a serialiser of compact objects, a test for decimal numerals,
  and an encoding that leaves the text as it is.
\<close>

fun demo_js2xml :: "jv \<Rightarrow> string" where
  "demo_js2xml (JObj kvs) =
     concat (map (\<lambda>kv.
        if fst kv = ''_text'' then demo_js2xml (snd kv)
        else case snd kv of
               JArr xs \<Rightarrow>
                 concat (map (\<lambda>x. ''<'' @ fst kv @ ''>'' @ demo_js2xml x
                                      @ ''</'' @ fst kv @ ''>'') xs)
             | v \<Rightarrow> ''<'' @ fst kv @ ''>'' @ demo_js2xml v @ ''</'' @ fst kv @ ''>'') kvs)"
| "demo_js2xml v = js_to_string v"

declare demo_js2xml.simps [simp del]

definition demo_isNaN :: "jv \<Rightarrow> bool" where
  "demo_isNaN v =
     (case v of
        JNum n \<Rightarrow> False
      | JStr s \<Rightarrow> \<not> list_all (\<lambda>c. c \<in> set ''0123456789'') s
      | JBool b \<Rightarrow> False
      | JNull \<Rightarrow> False
      | _ \<Rightarrow> True)"

text \<open>The documents, each with the compact object that the parser gives for it.\<close>

definition xml_order_received :: string where
  "xml_order_received =
     ''<OrderResponse><Order><id>order-77</id></Order><OrderStatus>RECEIVED</OrderStatus></OrderResponse>''"

definition order_received :: "(string \<times> jv) list" where
  "order_received =
     [(''OrderResponse'', JObj
        [(''Order'', JObj [(''id'', JObj [(''_text'', JStr ''order-77'')])]),
         (''OrderStatus'', JObj [(''_text'', JStr ''RECEIVED'')])])]"

definition xml_order_failed :: string where
  "xml_order_failed =
     ''<OrderResponse><Order><id>order-78</id></Order><OrderStatus>FAILED</OrderStatus></OrderResponse>''"

definition order_failed :: "(string \<times> jv) list" where
  "order_failed =
     [(''OrderResponse'', JObj
        [(''Order'', JObj [(''id'', JObj [(''_text'', JStr ''order-78'')])]),
         (''OrderStatus'', JObj [(''_text'', JStr ''FAILED'')])])]"

text \<open>A completed order for two numbers, searched by city and state, and its parse.\<close>

definition xml_completed_two :: string where
  "xml_completed_two =
     ''<OrderResponse><CompletedQuantity>2</CompletedQuantity><Summary>2 numbers ordered in (919)</Summary><OrderStatus>COMPLETE</OrderStatus><CompletedNumbers><TelephoneNumber><FullNumber>9195551234</FullNumber></TelephoneNumber><TelephoneNumber><FullNumber>9195555678</FullNumber></TelephoneNumber></CompletedNumbers><Order><PeerId>500709</PeerId><CitySearchAndOrderType><City>RALEIGH</City><State>NC</State><Quantity>2</Quantity></CitySearchAndOrderType></Order></OrderResponse>''"

definition completed_two :: "(string \<times> jv) list" where
  "completed_two =
     [(''OrderResponse'', JObj
        [(''CompletedQuantity'', JObj [(''_text'', JStr ''2'')]),
         (''Summary'', JObj [(''_text'', JStr ''2 numbers ordered in (919)'')]),
         (''OrderStatus'', JObj [(''_text'', JStr ''COMPLETE'')]),
         (''CompletedNumbers'', JObj
            [(''TelephoneNumber'', JArr
               [JObj [(''FullNumber'', JObj [(''_text'', JStr ''9195551234'')])],
                JObj [(''FullNumber'', JObj [(''_text'', JStr ''9195555678'')])]])]),
         (''Order'', JObj
            [(''PeerId'', JObj [(''_text'', JStr ''500709'')]),
             (''CitySearchAndOrderType'', JObj
                [(''City'', JObj [(''_text'', JStr ''RALEIGH'')]),
                 (''State'', JObj [(''_text'', JStr ''NC'')]),
                 (''Quantity'', JObj [(''_text'', JStr ''2'')])])])])]"

definition xml_completed_one :: string where
  "xml_completed_one =
     ''<OrderResponse><CompletedNumbers><TelephoneNumber><FullNumber>9195551234</FullNumber></TelephoneNumber></CompletedNumbers><OrderStatus>COMPLETE</OrderStatus></OrderResponse>''"

definition completed_one :: "(string \<times> jv) list" where
  "completed_one =
     [(''OrderResponse'', JObj
        [(''CompletedNumbers'', JObj
            [(''TelephoneNumber'', JObj
               [(''FullNumber'', JObj [(''_text'', JStr ''9195551234'')])])]),
         (''OrderStatus'', JObj [(''_text'', JStr ''COMPLETE'')])])]"

definition xml_check_failed :: string where
  "xml_check_failed = ''<OrderResponse><OrderStatus>FAILED</OrderStatus></OrderResponse>''"

definition check_failed :: "(string \<times> jv) list" where
  "check_failed =
     [(''OrderResponse'', JObj [(''OrderStatus'', JObj [(''_text'', JStr ''FAILED'')])])]"

definition xml_disconnect_received :: string where
  "xml_disconnect_received =
     ''<DisconnectTelephoneNumberOrderResponse><OrderStatus>RECEIVED</OrderStatus></DisconnectTelephoneNumberOrderResponse>''"

definition disconnect_received :: "(string \<times> jv) list" where
  "disconnect_received =
     [(''DisconnectTelephoneNumberOrderResponse'', JObj
        [(''OrderStatus'', JObj [(''_text'', JStr ''RECEIVED'')])])]"

text \<open>Two pages of a listing: the first has two numbers and a link to the second, the
  second has one number and no link.\<close>

definition url_page2 :: string where
  "url_page2 =
     ''https://dashboard.bandwidth.com/api/accounts/acc-1/sites/site-1/sippeers/peer-1/tns?page=2&size=2''"

definition xml_tns_page1 :: string where
  "xml_tns_page1 =
     ''<SipPeerTelephoneNumbersResponse><Links><next>Link=&lt;https://dashboard.bandwidth.com/api/accounts/acc-1/sites/site-1/sippeers/peer-1/tns?page=2&amp;size=2&gt;;rel=next;</next></Links><SipPeerTelephoneNumbers><SipPeerTelephoneNumber><FullNumber>9195551234</FullNumber></SipPeerTelephoneNumber><SipPeerTelephoneNumber><FullNumber>9195555678</FullNumber></SipPeerTelephoneNumber></SipPeerTelephoneNumbers></SipPeerTelephoneNumbersResponse>''"

definition tns_page1 :: "(string \<times> jv) list" where
  "tns_page1 =
     [(''SipPeerTelephoneNumbersResponse'', JObj
        [(''Links'', JObj
            [(''next'', JObj [(''_text'', JStr (''Link=<'' @ url_page2 @ ''>;rel=next;''))])]),
         (''SipPeerTelephoneNumbers'', JObj
            [(''SipPeerTelephoneNumber'', JArr
               [JObj [(''FullNumber'', JObj [(''_text'', JStr ''9195551234'')])],
                JObj [(''FullNumber'', JObj [(''_text'', JStr ''9195555678'')])]])])])]"

definition xml_tns_page2 :: string where
  "xml_tns_page2 =
     ''<SipPeerTelephoneNumbersResponse><Links/><SipPeerTelephoneNumbers><SipPeerTelephoneNumber><FullNumber>9195550000</FullNumber></SipPeerTelephoneNumber></SipPeerTelephoneNumbers></SipPeerTelephoneNumbersResponse>''"

definition tns_page2 :: "(string \<times> jv) list" where
  "tns_page2 =
     [(''SipPeerTelephoneNumbersResponse'', JObj
        [(''Links'', JObj []),
         (''SipPeerTelephoneNumbers'', JObj
            [(''SipPeerTelephoneNumber'', JObj
               [(''FullNumber'', JObj [(''_text'', JStr ''9195550000'')])])])])]"

definition demo_xml2js :: "string \<Rightarrow> string + (string \<times> jv) list" where
  "demo_xml2js text =
     (case map_of
             [(xml_order_received, order_received),
              (xml_order_failed, order_failed),
              (xml_completed_two, completed_two),
              (xml_completed_one, completed_one),
              (xml_check_failed, check_failed),
              (xml_disconnect_received, disconnect_received),
              (xml_tns_page1, tns_page1),
              (xml_tns_page2, tns_page2)] text of
        None \<Rightarrow> Inl ''not well-formed''
      | Some kvs \<Rightarrow> Inr kvs)"

definition demo_env :: "(request list \<Rightarrow> request \<Rightarrow> response) \<Rightarrow> env" where
  "demo_env server =
     \<lparr>xml2js = demo_xml2js, js2xml = demo_js2xml, isNaN = demo_isNaN,
      base64 = (\<lambda>s. s), network = server\<rparr>"

definition demo_headers :: hdrs where
  "demo_headers = \<lparr>Authorization = ''Basic user:secret'', Content_Type = ''application/xml''\<rparr>"

definition demo_client :: CBandwidth where
  "demo_client =
     \<lparr>cl_headers = demo_headers, cl_site = JStr ''site-1'', cl_accId = JStr ''acc-1'',
      cl_options = JObj [(''pageSize'', JNum 2)], cl_sippeerId = JStr ''peer-1'',
      cl_baseUrl = ''https://dashboard.bandwidth.com/api''\<rparr>"

text \<open>Example servers: one that cannot be reached, one that refuses every request, one
  that answers a \<open>POST\<close> and a \<open>GET\<close> with fixed bodies, and one that serves the two
  pages of the listing.\<close>

definition server_offline :: "request list \<Rightarrow> request \<Rightarrow> response" where
  "server_offline tr rq = NetworkFailure ''offline''"

definition server_unavailable :: "request list \<Rightarrow> request \<Rightarrow> response" where
  "server_unavailable tr rq = HttpResponse False ''Service Unavailable'' ''<html/>''"

definition server_replies :: "string \<Rightarrow> string \<Rightarrow> request list \<Rightarrow> request \<Rightarrow> response" where
  "server_replies post_body get_body tr rq =
     (if rq_method rq = ''POST'' then HttpResponse True ''OK'' post_body
      else HttpResponse True ''OK'' get_body)"

definition server_pages :: "request list \<Rightarrow> request \<Rightarrow> response" where
  "server_pages tr rq =
     (if rq_url rq = url_page2 then HttpResponse True ''OK'' xml_tns_page2
      else HttpResponse True ''OK'' xml_tns_page1)"

text \<open>The query of the examples: two numbers in a city.\<close>

definition demo_query :: jv where
  "demo_query =
     JObj [(''city'', JStr ''RALEIGH''), (''state'', JStr ''NC''), (''quantity'', JNum 2)]"

definition demo_order_object :: jv where
  "demo_order_object =
     JObj [(''Order'', JObj
        [(''SiteId'', JStr ''site-1''), (''PeerId'', JStr ''peer-1''),
         (''CitySearchAndOrderType'', JObj
            [(''City'', JStr ''RALEIGH''), (''State'', JStr ''NC''), (''Quantity'', JNum 2)])])]"

text \<open>The wrapper that the example client builds around a body and its parse.\<close>

definition demo_wrapper :: "string \<Rightarrow> (string \<times> jv) list \<Rightarrow> CBWResponse" where
  "demo_wrapper text kvs =
     \<lparr>textValue = text, json = JObj kvs, accId = JStr ''acc-1'', site = JStr ''site-1'',
      sippeerId = JStr ''peer-1'', options = JObj [(''pageSize'', JNum 2)],
      headers = demo_headers, baseUrl = ''https://dashboard.bandwidth.com/api'', parses = 1\<rparr>"

text \<open>The listing wrapper that the example client builds around a body, before it is
  parsed.\<close>

definition demo_listing :: "string \<Rightarrow> CBWTNSResponse" where
  "demo_listing text =
     \<lparr>textValue = text, json = JNull, accId = JStr ''acc-1'', site = JStr ''site-1'',
      sippeerId = JStr ''peer-1'', options = JObj [(''pageSize'', JNum 2)],
      headers = demo_headers, baseUrl = ''https://dashboard.bandwidth.com/api'', parses = 0,
      nextIndex = 0\<rparr>"

section \<open>Properties\<close>

subsection \<open>Objects and strings\<close>

lemma map_of_set_field_same: "map_of (set_field kvs k v) k = Some v"
  by (induction kvs) auto

lemma map_of_set_field_other: "k' \<noteq> k \<Longrightarrow> map_of (set_field kvs k v) k' = map_of kvs k'"
  by (induction kvs) auto

lemma get_prop_set_field_same: "get_prop (JObj (set_field kvs k v)) k = Inr v"
  by (simp add: map_of_set_field_same)

lemma get_path_set_field_other:
  "k' \<noteq> k \<Longrightarrow> get_path (JObj (set_field kvs k v)) (k' # ks) = get_path (JObj kvs) (k' # ks)"
  by (simp add: map_of_set_field_other)

lemma indexOf_first: "c \<notin> set pre \<Longrightarrow> indexOf (pre @ c # post) c = int (length pre)"
  by (induction pre) (auto simp: Let_def)

lemma substring_middle:
  "substring (pre @ c # code @ d # post) (int (length pre) + 1)
     (int (length pre) + 1 + int (length code)) = code"
  by (simp add: substring_def Let_def min_def max_def nat_add_distrib)

text \<open>The area code is what stands between the first \<open>(\<close> and the first \<open>)\<close>, when the
  \<open>(\<close> comes first.\<close>

lemma parseAreaCode_parenthesized:
  assumes "CHR ''('' \<notin> set pre" "CHR '')'' \<notin> set pre" "CHR '')'' \<notin> set code"
  shows "parseAreaCode (JStr (pre @ ''('' @ code @ '')'' @ post)) = Inr (JStr code)"
proof -
  let ?s = "pre @ CHR ''('' # code @ CHR '')'' # post"
  have a: "indexOf ?s (CHR ''('') = int (length pre)"
    using assms(1) by (rule indexOf_first)
  have "indexOf ((pre @ CHR ''('' # code) @ CHR '')'' # post) (CHR '')'')
          = int (length (pre @ CHR ''('' # code))"
    using assms(2,3) by (intro indexOf_first) auto
  then have b: "indexOf ?s (CHR '')'') = int (length pre) + 1 + int (length code)"
    by simp
  show ?thesis
    using substring_middle[of pre "CHR ''(''" code "CHR '')''" post]
    by (simp add: parseAreaCode_def a b Let_def)
qed

subsection \<open>The unified result\<close>

lemma did_entry_attached:
  assumes "get_path (JObj kvs) [''OrderResponse'', ''Order'', ''PeerId'', ''_text''] = Inr peer"
    and "get_path (JObj kvs) [''OrderResponse'', ''Summary'', ''_text''] = Inr (JStr summary)"
    and "parseAreaCode (JStr summary) = Inr area"
    and "get_path item [''FullNumber'', ''_text''] = Inr (JStr digits)"
  shows "did_entry (JObj (set_field kvs ''order_id'' order_id)) item
           = Inr (did_of peer order_id digits area)"
proof -
  let ?obj = "JObj (set_field kvs ''order_id'' order_id)"
  have p: "get_path ?obj [''OrderResponse'', ''Order'', ''PeerId'', ''_text''] = Inr peer"
    using assms(1) by (subst get_path_set_field_other) simp_all
  have s: "get_path ?obj [''OrderResponse'', ''Summary'', ''_text''] = Inr (JStr summary)"
    using assms(2) by (subst get_path_set_field_other) simp_all
  have d: "get_prop ?obj ''order_id'' = Inr order_id"
    by (rule get_prop_set_field_same)
  show ?thesis
    unfolding did_entry_def did_of_def
    by (simp only: p s d assms(3,4) sum.case js_to_string.simps)
qed

text \<open>
  Claim C8. The check-order response is complete with exactly two completed numbers, whose
  raw digits are \<open>digits1\<close> and \<open>digits2\<close>; its summary holds the area code \<open>code\<close>
  between its first parentheses. With the order id attached as \<open>allocate\<close> attaches it, the
  unified result has \<open>resultCount\<close> 2 and two \<open>dids\<close> in the order of the numbers, each
  with the peer id of the response, the order id, \<open>e164\<close> equal to \<open>+1\<close> followed by the
  raw digits, the country code \<open>USA\<close> and the area code \<open>code\<close>.
\<close>

theorem unified_two_numbers:
  assumes nums: "get_path (JObj kvs) [''OrderResponse'', ''CompletedNumbers'', ''TelephoneNumber'']
            = Inr (JArr [n1, n2])"
    and d1: "get_path n1 [''FullNumber'', ''_text''] = Inr (JStr digits1)"
    and d2: "get_path n2 [''FullNumber'', ''_text''] = Inr (JStr digits2)"
    and peer: "get_path (JObj kvs) [''OrderResponse'', ''Order'', ''PeerId'', ''_text''] = Inr peer"
    and summ: "get_path (JObj kvs) [''OrderResponse'', ''Summary'', ''_text'']
            = Inr (JStr (pre @ ''('' @ code @ '')'' @ post))"
    and pre: "CHR ''('' \<notin> set pre" "CHR '')'' \<notin> set pre"
    and code: "CHR '')'' \<notin> set code"
  shows "Unified_Response (JObj (set_field kvs ''order_id'' order_id))
           = Inr (JObj [(''dids'', JArr [did_of peer order_id digits1 (JStr code),
                                          did_of peer order_id digits2 (JStr code)]),
                        (''resultCount'', JNum 2)])"
proof -
  let ?obj = "JObj (set_field kvs ''order_id'' order_id)"
  have area: "parseAreaCode (JStr (pre @ ''('' @ code @ '')'' @ post)) = Inr (JStr code)"
    using pre code by (rule parseAreaCode_parenthesized)
  have n: "get_path ?obj [''OrderResponse'', ''CompletedNumbers'', ''TelephoneNumber'']
             = Inr (JArr [n1, n2])"
    using nums by (subst get_path_set_field_other) simp_all
  have e1: "did_entry ?obj n1 = Inr (did_of peer order_id digits1 (JStr code))"
    using peer summ area d1 by (rule did_entry_attached)
  have e2: "did_entry ?obj n2 = Inr (did_of peer order_id digits2 (JStr code))"
    using peer summ area d2 by (rule did_entry_attached)
  show ?thesis
    unfolding Unified_Response_def
    by (simp only: n e1 e2 sum.case jv.case map_throw.simps) simp
qed

theorem unified_two_numbers_witness:
  "Unified_Response (JObj (set_field completed_two ''order_id'' (JStr ''order-77'')))
     = Inr (JObj [(''dids'', JArr
              [did_of (JStr ''500709'') (JStr ''order-77'') ''9195551234'' (JStr ''919''),
               did_of (JStr ''500709'') (JStr ''order-77'') ''9195555678'' (JStr ''919'')]),
            (''resultCount'', JNum 2)])"
  using unified_two_numbers [of completed_two
      "JObj [(''FullNumber'', JObj [(''_text'', JStr ''9195551234'')])]"
      "JObj [(''FullNumber'', JObj [(''_text'', JStr ''9195555678'')])]"
      "''9195551234''" "''9195555678''" "JStr ''500709''"
      "''2 numbers ordered in ''" "''919''" "''''" "JStr ''order-77''"]
  by (simp add: completed_two_def)

subsection \<open>The example collaborators\<close>

lemma demo_parse_simps:
  "demo_xml2js xml_order_received = Inr order_received"
  "demo_xml2js xml_order_failed = Inr order_failed"
  "demo_xml2js xml_completed_two = Inr completed_two"
  "demo_xml2js xml_completed_one = Inr completed_one"
  "demo_xml2js xml_check_failed = Inr check_failed"
  "demo_xml2js xml_disconnect_received = Inr disconnect_received"
  "demo_xml2js xml_tns_page1 = Inr tns_page1"
  "demo_xml2js xml_tns_page2 = Inr tns_page2"
  by (simp_all add: demo_xml2js_def xml_order_received_def xml_order_failed_def
      xml_completed_two_def xml_completed_one_def xml_check_failed_def
      xml_disconnect_received_def xml_tns_page1_def xml_tns_page2_def)

lemma demo_xml_nonempty:
  "xml_order_received \<noteq> []" "xml_order_failed \<noteq> []" "xml_completed_two \<noteq> []"
  "xml_completed_one \<noteq> []" "xml_check_failed \<noteq> []" "xml_disconnect_received \<noteq> []"
  "xml_tns_page1 \<noteq> []" "xml_tns_page2 \<noteq> []"
  by (simp_all add: xml_order_received_def xml_order_failed_def xml_completed_two_def
      xml_completed_one_def xml_check_failed_def xml_disconnect_received_def
      xml_tns_page1_def xml_tns_page2_def)

lemma demo_env_simps:
  "xml2js (demo_env server) = demo_xml2js"
  "js2xml (demo_env server) = demo_js2xml"
  "isNaN (demo_env server) = demo_isNaN"
  "network (demo_env server) = server"
  by (simp_all add: demo_env_def)

text \<open>The example client is what the constructor builds.\<close>

lemma demo_client_constructed:
  "new_CBandwidth (demo_env server) (JStr ''user'') (JStr ''secret'') (JStr ''acc-1'')
     (JStr ''site-1'') (JObj [(''pageSize'', JNum 2)]) (JStr ''peer-1'') = Inr demo_client"
  by (simp add: new_CBandwidth_def demo_env_def demo_client_def demo_headers_def)

subsection \<open>The accessors\<close>

lemma map_throw_all_ok: "map f xs = map Inr ys \<Longrightarrow> map_throw f xs = Inr ys"
proof (induction xs arbitrary: ys)
  case Nil
  then show ?case by simp
next
  case (Cons x xs)
  then obtain y ys' where ys: "ys = y # ys'" "f x = Inr y" "map f xs = map Inr ys'"
    by (cases ys) auto
  with Cons.IH[of ys'] show ?case by simp
qed

text \<open>The listing accessor: one entry per item, in the order of the items, and a
  one-element list for a single item.\<close>

lemma TNS_Numbers_many:
  assumes "toJSON E w = (Inr j, w')" and "truthy j"
    and "get_path (json w') [''SipPeerTelephoneNumbersResponse'', ''SipPeerTelephoneNumbers'',
           ''SipPeerTelephoneNumber''] = Inr (JArr items)"
    and "map (\<lambda>item. get_path item [''FullNumber'', ''_text'']) items = map Inr ns"
  shows "TNS_Numbers E w = (Inr (JArr ns), w')"
  unfolding TNS_Numbers_def TNS_numbers_of_def
  by (simp only: assms(1,2,3) map_throw_all_ok[OF assms(4)] prod.case sum.case jv.case
      not_True_eq_False if_False)

lemma TNS_Numbers_one:
  assumes "toJSON E w = (Inr j, w')" and "truthy j"
    and "get_path (json w') [''SipPeerTelephoneNumbersResponse'', ''SipPeerTelephoneNumbers'',
           ''SipPeerTelephoneNumber''] = Inr item"
    and "\<not> instanceof_Array item"
    and "get_path item [''FullNumber'', ''_text''] = Inr n"
  shows "TNS_Numbers E w = (Inr (JArr [n]), w')"
  using assms by (cases item) (simp_all add: TNS_Numbers_def TNS_numbers_of_def)

text \<open>The completed-order accessor: one entry per item in the order of the items, but the
  bare string for a single item.\<close>

lemma CheckOrder_Numbers_many:
  assumes "truthy (json w)"
    and "get_path (json w) [''OrderResponse'', ''CompletedNumbers'', ''TelephoneNumber'']
           = Inr (JArr items)"
    and "map (\<lambda>item. get_path item [''FullNumber'', ''_text'']) items = map Inr ns"
  shows "CheckOrder_Numbers w = Inr (JArr (map (\<lambda>n. JStr (''+1'' @ js_to_string n)) ns))"
proof -
  have "map (\<lambda>item. case get_path item [''FullNumber'', ''_text''] of
                       Inl e \<Rightarrow> Inl e
                     | Inr n \<Rightarrow> Inr (JStr (''+1'' @ js_to_string n))) items
          = map Inr (map (\<lambda>n. JStr (''+1'' @ js_to_string n)) ns)"
    using assms(3)
  proof (induction items arbitrary: ns)
    case Nil
    then show ?case by simp
  next
    case (Cons item items)
    then obtain n ns' where "ns = n # ns'"
      "get_path item [''FullNumber'', ''_text''] = Inr n"
      "map (\<lambda>item. get_path item [''FullNumber'', ''_text'']) items = map Inr ns'"
      by (cases ns) auto
    with Cons.IH[of ns'] show ?case by simp
  qed
  then have "map_throw (\<lambda>item. case get_path item [''FullNumber'', ''_text''] of
                       Inl e \<Rightarrow> Inl e
                     | Inr n \<Rightarrow> Inr (JStr (''+1'' @ js_to_string n))) items
          = Inr (map (\<lambda>n. JStr (''+1'' @ js_to_string n)) ns)"
    by (rule map_throw_all_ok)
  then show ?thesis
    unfolding CheckOrder_Numbers_def
    by (simp only: assms(1,2) sum.case jv.case not_True_eq_False if_False)
qed

lemma CheckOrder_Numbers_one:
  assumes "truthy (json w)"
    and "get_path (json w) [''OrderResponse'', ''CompletedNumbers'', ''TelephoneNumber'']
           = Inr item"
    and "\<not> instanceof_Array item"
    and "get_path item [''FullNumber'', ''_text''] = Inr n"
  shows "CheckOrder_Numbers w = Inr (JStr (''+1'' @ js_to_string n))"
  using assms by (cases item) (simp_all add: CheckOrder_Numbers_def)

text \<open>
  Claim C2, at the input where the code departs from it. The completed-order response
  holds a single number, so that the parse has an object and no list under
  \<open>TelephoneNumber\<close>. \<open>Numbers\<close> is then the string \<open>+19195551234\<close>, not the list with
  that one string.
\<close>

theorem CheckOrder_Numbers_single_is_string:
  "(case new_CBWCheckOrderResponse (demo_env server_offline) xml_completed_one
           (JStr ''acc-1'') (JStr ''site-1'') (JStr ''peer-1'') (JObj [(''pageSize'', JNum 2)])
           demo_headers ''https://dashboard.bandwidth.com/api'' of
      Inl e \<Rightarrow> Inl e
    | Inr w \<Rightarrow> CheckOrder_Numbers w) = Inr (JStr ''+19195551234'')"
  by (simp add: new_CBWCheckOrderResponse_def new_parsed_response_def new_CBWResponse_def
      toJSON_def demo_env_simps demo_parse_simps demo_xml_nonempty CheckOrder_Numbers_def
      completed_one_def)

subsection \<open>Required parameters\<close>

text \<open>
  The parameters that are checked on entry. Omitting the login, the password, the account
  id or the site id makes the constructor throw (it issues no request in any case).
  Omitting the SIP-peer id of a listing, the order id of a check, or the order id or the
  numbers of a disconnect makes the call throw with the request log as it was.
\<close>

lemma required_parameters_fail_fast:
  "(login = JUndef \<or> pass = JUndef \<or> a = JUndef \<or> s = JUndef \<longrightarrow>
      (\<exists>param. new_CBandwidth E login pass a s opts p = Inl (v_CBandwidth param)))
   \<and> getSipPeersTNS E this JUndef tr = (Inl (v_CBandwidth ''sippeer-id''), tr)
   \<and> getSipPeersTNSAll fuel E this JUndef tr = Some (Inl (v_CBandwidth ''sippeer-id''), tr)
   \<and> checkOrder E this JUndef tr = (Inl (v_CBandwidth ''orderid''), tr)
   \<and> disconnect E this JUndef numbers tr = (Inl (v_CBandwidth ''orderid''), tr)
   \<and> (orderid \<noteq> JUndef \<longrightarrow>
        disconnect E this orderid JUndef tr = (Inl (v_CBandwidth ''numbers''), tr))"
proof -
  have c: "login = JUndef \<or> pass = JUndef \<or> a = JUndef \<or> s = JUndef \<longrightarrow>
      (\<exists>param. new_CBandwidth E login pass a s opts p = Inl (v_CBandwidth param))"
    by (auto simp: new_CBandwidth_def)
  have l: "getSipPeersTNS E this JUndef tr = (Inl (v_CBandwidth ''sippeer-id''), tr)"
    by (simp add: getSipPeersTNS_def)
  have la: "getSipPeersTNSAll fuel E this JUndef tr = Some (Inl (v_CBandwidth ''sippeer-id''), tr)"
    by (simp add: getSipPeersTNSAll_def)
  have k: "checkOrder E this JUndef tr = (Inl (v_CBandwidth ''orderid''), tr)"
    by (simp add: checkOrder_def)
  have d: "disconnect E this JUndef numbers tr = (Inl (v_CBandwidth ''orderid''), tr)"
    by (simp add: disconnect_def)
  have n: "orderid \<noteq> JUndef \<longrightarrow>
        disconnect E this orderid JUndef tr = (Inl (v_CBandwidth ''numbers''), tr)"
    by (simp add: disconnect_def)
  from c l la k d n show ?thesis by blast
qed

lemma required_parameters_fail_fast_example:
  "new_CBandwidth (demo_env server_offline) (JStr ''user'') JUndef (JStr ''acc-1'')
     (JStr ''site-1'') JUndef (JStr ''peer-1'') = Inl (v_CBandwidth ''password'')
   \<and> disconnect (demo_env server_offline) demo_client (JStr ''order-77'') JUndef []
       = (Inl (v_CBandwidth ''numbers''), [])"
  using required_parameters_fail_fast [of "JStr ''user''" JUndef "JStr ''acc-1''"
      "JStr ''site-1''" "demo_env server_offline" JUndef "JStr ''peer-1''" demo_client "[]"
      0 JUndef "JStr ''order-77''"]
  by (simp add: new_CBandwidth_def)

text \<open>The constructor does not check its SIP-peer id: with the four checked parameters
  given, it builds a client whose \<open>sippeerId\<close> is \<open>undefined\<close>.\<close>

lemma constructor_accepts_missing_sippeer_id:
  assumes "login \<noteq> JUndef" and "pass \<noteq> JUndef" and "a \<noteq> JUndef" and "s \<noteq> JUndef"
  shows "\<exists>this. new_CBandwidth E login pass a s opts JUndef = Inr this
           \<and> cl_sippeerId this = JUndef \<and> cl_accId this = a \<and> cl_site this = s"
  using assms by (simp add: new_CBandwidth_def)

text \<open>
  Through such a client the missing SIP-peer id is found late. The order, the check and
  the disconnect issue their request, and only when the response has come back with
  success does the constructor of the response wrapper throw on the \<open>undefined\<close>
  \<open>sippeerId\<close>.
\<close>

lemma missing_sippeer_id_fails_late:
  assumes "cl_sippeerId this = JUndef" and "cl_accId this \<noteq> JUndef"
    and "cl_site this \<noteq> JUndef"
  shows "(order_object this (with_quantity E kvs) = Some obj
          \<and> network E tr (order_request E this obj) = HttpResponse True statusText body \<longrightarrow>
            searchAndOrderDID E this (JObj kvs) tr
              = (Inl (v_CBWResponse ''sippeerId''), tr @ [order_request E this obj]))
       \<and> (orderid \<noteq> JUndef
          \<and> network E tr (check_request this orderid) = HttpResponse True statusText body \<longrightarrow>
            checkOrder E this orderid tr
              = (Inl (v_CBWResponse ''sippeerId''), tr @ [check_request this orderid]))
       \<and> (orderid \<noteq> JUndef \<and> instanceof_Array numbers
          \<and> network E tr (disconnect_request E this orderid numbers)
                = HttpResponse True statusText body \<longrightarrow>
            disconnect E this orderid numbers tr
              = (Inl (v_CBWResponse ''sippeerId''),
                 tr @ [disconnect_request E this orderid numbers]))"
proof -
  have w: "new_parsed_response E body (cl_accId this) (cl_site this) (cl_sippeerId this)
             (cl_options this) (cl_headers this) (cl_baseUrl this)
           = Inl (v_CBWResponse ''sippeerId'')"
    using assms by (simp add: new_parsed_response_def new_CBWResponse_def)
  have s: "order_object this (with_quantity E kvs) = Some obj
          \<and> network E tr (order_request E this obj) = HttpResponse True statusText body \<longrightarrow>
            searchAndOrderDID E this (JObj kvs) tr
              = (Inl (v_CBWResponse ''sippeerId''), tr @ [order_request E this obj])"
    by (simp add: searchAndOrderDID_def fetch_def new_CBWOrderResponse_def w)
  have k: "orderid \<noteq> JUndef
          \<and> network E tr (check_request this orderid) = HttpResponse True statusText body \<longrightarrow>
            checkOrder E this orderid tr
              = (Inl (v_CBWResponse ''sippeerId''), tr @ [check_request this orderid])"
    by (simp add: checkOrder_def fetch_def new_CBWCheckOrderResponse_def w)
  have d: "orderid \<noteq> JUndef \<and> instanceof_Array numbers
          \<and> network E tr (disconnect_request E this orderid numbers)
                = HttpResponse True statusText body \<longrightarrow>
            disconnect E this orderid numbers tr
              = (Inl (v_CBWResponse ''sippeerId''),
                 tr @ [disconnect_request E this orderid numbers])"
    by (cases numbers)
       (simp_all add: disconnect_def fetch_def new_CBWDisconnectOrderResponse_def w)
  from s k d show ?thesis by blast
qed

text \<open>
  Claim C5, at the input where the code departs from it. The constructor is called with
  the login, the password, the account id and the site id, and without a SIP-peer id (and
  without options). It does not throw: it builds a client with \<open>sippeerId\<close> left
  \<open>undefined\<close>. An order by area code, a check and a disconnect through that client
  each issue their request before they throw on the missing SIP-peer id.
\<close>

theorem constructor_without_sippeer_id_fails_late:
  "new_CBandwidth (demo_env (server_replies xml_order_received xml_completed_two))
     (JStr ''user'') (JStr ''secret'') (JStr ''acc-1'') (JStr ''site-1'') JUndef JUndef
     = Inr (demo_client\<lparr>cl_options := JObj [(''pageSize'', JNum 100)], cl_sippeerId := JUndef\<rparr>)
   \<and> searchAndOrderDID (demo_env (server_replies xml_order_received xml_completed_two))
       (demo_client\<lparr>cl_options := JObj [(''pageSize'', JNum 100)], cl_sippeerId := JUndef\<rparr>)
       (JObj [(''areaCode'', JStr ''919'')]) []
     = (Inl (v_CBWResponse ''sippeerId''),
        [order_request (demo_env (server_replies xml_order_received xml_completed_two))
           (demo_client\<lparr>cl_options := JObj [(''pageSize'', JNum 100)], cl_sippeerId := JUndef\<rparr>)
           (JObj [(''Order'', JObj
              [(''SiteId'', JStr ''site-1''), (''PeerId'', JUndef),
               (''AreaCodeSearchAndOrderType'', JObj
                  [(''AreaCode'', JStr ''919''), (''Quantity'', JNum 1)])])])])
   \<and> checkOrder (demo_env (server_replies xml_order_received xml_completed_two))
       (demo_client\<lparr>cl_options := JObj [(''pageSize'', JNum 100)], cl_sippeerId := JUndef\<rparr>)
       (JStr ''order-77'') []
     = (Inl (v_CBWResponse ''sippeerId''),
        [check_request
           (demo_client\<lparr>cl_options := JObj [(''pageSize'', JNum 100)], cl_sippeerId := JUndef\<rparr>)
           (JStr ''order-77'')])
   \<and> disconnect (demo_env (server_replies xml_disconnect_received xml_completed_two))
       (demo_client\<lparr>cl_options := JObj [(''pageSize'', JNum 100)], cl_sippeerId := JUndef\<rparr>)
       (JStr ''order-77'') (JArr [JStr ''9195551234'']) []
     = (Inl (v_CBWResponse ''sippeerId''),
        [disconnect_request (demo_env (server_replies xml_disconnect_received xml_completed_two))
           (demo_client\<lparr>cl_options := JObj [(''pageSize'', JNum 100)], cl_sippeerId := JUndef\<rparr>)
           (JStr ''order-77'') (JArr [JStr ''9195551234''])])"
proof -
  have built:
    "new_CBandwidth (demo_env (server_replies xml_order_received xml_completed_two))
       (JStr ''user'') (JStr ''secret'') (JStr ''acc-1'') (JStr ''site-1'') JUndef JUndef
     = Inr (demo_client\<lparr>cl_options := JObj [(''pageSize'', JNum 100)], cl_sippeerId := JUndef\<rparr>)"
    by (simp add: new_CBandwidth_def demo_env_def demo_client_def demo_headers_def)
  have ordered:
    "searchAndOrderDID (demo_env (server_replies xml_order_received xml_completed_two))
       (demo_client\<lparr>cl_options := JObj [(''pageSize'', JNum 100)], cl_sippeerId := JUndef\<rparr>)
       (JObj [(''areaCode'', JStr ''919'')]) []
     = (Inl (v_CBWResponse ''sippeerId''),
        [order_request (demo_env (server_replies xml_order_received xml_completed_two))
           (demo_client\<lparr>cl_options := JObj [(''pageSize'', JNum 100)], cl_sippeerId := JUndef\<rparr>)
           (JObj [(''Order'', JObj
              [(''SiteId'', JStr ''site-1''), (''PeerId'', JUndef),
               (''AreaCodeSearchAndOrderType'', JObj
                  [(''AreaCode'', JStr ''919''), (''Quantity'', JNum 1)])])])])"
    by (simp add: searchAndOrderDID_def order_object_def with_quantity_def field_def fetch_def
        demo_env_simps server_replies_def order_request_def new_CBWOrderResponse_def
        new_parsed_response_def new_CBWResponse_def demo_client_def)
  have checked:
    "checkOrder (demo_env (server_replies xml_order_received xml_completed_two))
       (demo_client\<lparr>cl_options := JObj [(''pageSize'', JNum 100)], cl_sippeerId := JUndef\<rparr>)
       (JStr ''order-77'') []
     = (Inl (v_CBWResponse ''sippeerId''),
        [check_request
           (demo_client\<lparr>cl_options := JObj [(''pageSize'', JNum 100)], cl_sippeerId := JUndef\<rparr>)
           (JStr ''order-77'')])"
    by (simp add: checkOrder_def fetch_def demo_env_simps server_replies_def check_request_def
        new_CBWCheckOrderResponse_def new_parsed_response_def new_CBWResponse_def
        demo_client_def)
  have disconnected:
    "disconnect (demo_env (server_replies xml_disconnect_received xml_completed_two))
       (demo_client\<lparr>cl_options := JObj [(''pageSize'', JNum 100)], cl_sippeerId := JUndef\<rparr>)
       (JStr ''order-77'') (JArr [JStr ''9195551234'']) []
     = (Inl (v_CBWResponse ''sippeerId''),
        [disconnect_request (demo_env (server_replies xml_disconnect_received xml_completed_two))
           (demo_client\<lparr>cl_options := JObj [(''pageSize'', JNum 100)], cl_sippeerId := JUndef\<rparr>)
           (JStr ''order-77'') (JArr [JStr ''9195551234''])])"
    by (simp add: disconnect_def fetch_def demo_env_simps server_replies_def
        disconnect_request_def new_CBWDisconnectOrderResponse_def new_parsed_response_def
        new_CBWResponse_def demo_client_def)
  from built ordered checked disconnected show ?thesis by (intro conjI)
qed

subsection \<open>HTTP failures\<close>

text \<open>
  Claim C6. When the server answers the request of an operation with a status that is not
  a success, the operation throws an error made from the status text of that response and
  returns no wrapper: the listing of one page and of all pages, the order, the check, the
  disconnect, and the page fetch of the iterator, which leaves the iterated wrapper as it
  was and ends the loop over the pages with that error.
\<close>

theorem http_failure_throws:
  "(p \<noteq> JUndef \<and> get_prop (cl_options this) ''pageSize'' = Inr pageSize
      \<and> network E tr (tns_request this p pageSize) = HttpResponse False statusText body \<longrightarrow>
        getSipPeersTNS E this p tr
          = (Inl (CBWTNSError statusText), tr @ [tns_request this p pageSize]))
   \<and> (order_object this (with_quantity E kvs) = Some obj
      \<and> network E tr (order_request E this obj) = HttpResponse False statusText body \<longrightarrow>
        searchAndOrderDID E this (JObj kvs) tr
          = (Inl (Error statusText), tr @ [order_request E this obj]))
   \<and> (orderid \<noteq> JUndef
      \<and> network E tr (check_request this orderid) = HttpResponse False statusText body \<longrightarrow>
        checkOrder E this orderid tr
          = (Inl (Error statusText), tr @ [check_request this orderid]))
   \<and> (orderid \<noteq> JUndef \<and> instanceof_Array numbers
      \<and> network E tr (disconnect_request E this orderid numbers)
            = HttpResponse False statusText body \<longrightarrow>
        disconnect E this orderid numbers tr
          = (Inl (Error statusText), tr @ [disconnect_request E this orderid numbers]))
   \<and> TNS_next_await (HttpResponse False statusText body) w = (Inl (CBWTNSError statusText), w)
   \<and> (p \<noteq> JUndef \<and> get_prop (cl_options this) ''pageSize'' = Inr pageSize
      \<and> network E tr (tns_request this p pageSize) = HttpResponse False statusText body \<longrightarrow>
        getSipPeersTNSAll fuel E this p tr
          = Some (Inl (CBWTNSError statusText), tr @ [tns_request this p pageSize]))
   \<and> (TNS_next E w tr = (Inr (Yield (HttpResponse False statusText body)), w1, tr1) \<longrightarrow>
        TNSAll_loop (Suc fuel) E w result tr = Some (Inl (CBWTNSError statusText), tr1))"
proof -
  have l: "p \<noteq> JUndef \<and> get_prop (cl_options this) ''pageSize'' = Inr pageSize
      \<and> network E tr (tns_request this p pageSize) = HttpResponse False statusText body \<longrightarrow>
        getSipPeersTNS E this p tr
          = (Inl (CBWTNSError statusText), tr @ [tns_request this p pageSize])"
    by (simp add: getSipPeersTNS_def fetch_def)
  have s: "order_object this (with_quantity E kvs) = Some obj
      \<and> network E tr (order_request E this obj) = HttpResponse False statusText body \<longrightarrow>
        searchAndOrderDID E this (JObj kvs) tr
          = (Inl (Error statusText), tr @ [order_request E this obj])"
    by (simp add: searchAndOrderDID_def fetch_def)
  have k: "orderid \<noteq> JUndef
      \<and> network E tr (check_request this orderid) = HttpResponse False statusText body \<longrightarrow>
        checkOrder E this orderid tr
          = (Inl (Error statusText), tr @ [check_request this orderid])"
    by (simp add: checkOrder_def fetch_def)
  have d: "orderid \<noteq> JUndef \<and> instanceof_Array numbers
      \<and> network E tr (disconnect_request E this orderid numbers)
            = HttpResponse False statusText body \<longrightarrow>
        disconnect E this orderid numbers tr
          = (Inl (Error statusText), tr @ [disconnect_request E this orderid numbers])"
    by (cases numbers) (simp_all add: disconnect_def fetch_def)
  have n: "TNS_next_await (HttpResponse False statusText body) w
             = (Inl (CBWTNSError statusText), w)" for w :: CBWTNSResponse
    by (simp add: TNS_next_await_def)
  have la: "p \<noteq> JUndef \<and> get_prop (cl_options this) ''pageSize'' = Inr pageSize
      \<and> network E tr (tns_request this p pageSize) = HttpResponse False statusText body \<longrightarrow>
        getSipPeersTNSAll fuel E this p tr
          = Some (Inl (CBWTNSError statusText), tr @ [tns_request this p pageSize])"
    using l by (simp add: getSipPeersTNSAll_def)
  have lp: "TNS_next E w tr = (Inr (Yield (HttpResponse False statusText body)), w1, tr1) \<longrightarrow>
        TNSAll_loop (Suc fuel) E w result tr = Some (Inl (CBWTNSError statusText), tr1)"
    by (simp add: n)
  from l s k d n[of w] la lp show ?thesis by blast
qed

theorem http_failure_throws_witness:
  "getSipPeersTNS (demo_env server_unavailable) demo_client (JStr ''peer-1'') []
     = (Inl (CBWTNSError ''Service Unavailable''),
        [tns_request demo_client (JStr ''peer-1'') (JNum 2)])
   \<and> searchAndOrderDID (demo_env server_unavailable) demo_client
        (JObj [(''city'', JStr ''RALEIGH''), (''state'', JStr ''NC''), (''quantity'', JNum 2)]) []
     = (Inl (Error ''Service Unavailable''),
        [order_request (demo_env server_unavailable) demo_client
           (JObj [(''Order'', JObj
              [(''SiteId'', JStr ''site-1''), (''PeerId'', JStr ''peer-1''),
               (''CitySearchAndOrderType'', JObj
                  [(''City'', JStr ''RALEIGH''), (''State'', JStr ''NC''),
                   (''Quantity'', JNum 2)])])])])
   \<and> checkOrder (demo_env server_unavailable) demo_client (JStr ''order-77'') []
     = (Inl (Error ''Service Unavailable''), [check_request demo_client (JStr ''order-77'')])
   \<and> disconnect (demo_env server_unavailable) demo_client (JStr ''order-77'')
        (JArr [JStr ''9195551234'']) []
     = (Inl (Error ''Service Unavailable''),
        [disconnect_request (demo_env server_unavailable) demo_client (JStr ''order-77'')
           (JArr [JStr ''9195551234''])])
   \<and> getSipPeersTNSAll 0 (demo_env server_unavailable) demo_client (JStr ''peer-1'') []
     = Some (Inl (CBWTNSError ''Service Unavailable''),
             [tns_request demo_client (JStr ''peer-1'') (JNum 2)])"
  using http_failure_throws [of "JStr ''peer-1''" demo_client "JNum 2"
      "demo_env server_unavailable" "[]" "''Service Unavailable''" "''<html/>''"
      "[(''city'', JStr ''RALEIGH''), (''state'', JStr ''NC''), (''quantity'', JNum 2)]"
      "JObj [(''Order'', JObj
              [(''SiteId'', JStr ''site-1''), (''PeerId'', JStr ''peer-1''),
               (''CitySearchAndOrderType'', JObj
                  [(''City'', JStr ''RALEIGH''), (''State'', JStr ''NC''),
                   (''Quantity'', JNum 2)])])]"
      "JStr ''order-77''" "JArr [JStr ''9195551234'']"]
  by (simp add: demo_env_simps server_unavailable_def demo_client_def order_object_def
      with_quantity_def field_def demo_isNaN_def)

subsection \<open>Disconnect\<close>

lemma wrapped_differs: "JObj [(k, x)] \<noteq> x"
proof
  assume "JObj [(k, x)] = x"
  then have "size (JObj [(k, x)]) = size x" by simp
  then show False by simp
qed

lemma wrapped_numbers_differ: "xs \<noteq> [] \<Longrightarrow> wrapped_numbers xs \<noteq> xs"
  by (cases xs) (simp_all add: wrapped_numbers_def wrapped_differs)

text \<open>
  Claim C10, where it fails: \<open>numbers\<close> is an array (the empty one), and
  \<open>disconnect\<close> throws all the same, once because the server refuses the request and
  once because the order id is omitted.
\<close>

theorem disconnect_throws_on_array_counterexample:
  "instanceof_Array (JArr [])
   \<and> disconnect (demo_env server_unavailable) demo_client (JStr ''order-77'') (JArr []) []
       = (Inl (Error ''Service Unavailable''),
          [disconnect_request (demo_env server_unavailable) demo_client (JStr ''order-77'')
             (JArr [])])
   \<and> disconnect (demo_env server_unavailable) demo_client JUndef (JArr []) []
       = (Inl (v_CBandwidth ''orderid''), [])"
  by (simp add: disconnect_def fetch_def demo_env_simps server_unavailable_def)

text \<open>
  Claim C10, amended. \<open>disconnect\<close> throws before it issues a request exactly when the
  order id is omitted or \<open>numbers\<close> is not an \<open>Array\<close>. Otherwise, the empty array
  included, it issues one request; the object it serialises into the body has \<open>numbers\<close>
  itself as its telephone-number list, which for a non-empty array is not the array of
  wrapped elements.
\<close>

theorem disconnect_argument_check:
  "((\<exists>e. disconnect E this orderid numbers tr = (Inl e, tr))
      \<longleftrightarrow> (orderid = JUndef \<or> \<not> instanceof_Array numbers))
   \<and> (orderid \<noteq> JUndef \<and> instanceof_Array numbers \<longrightarrow>
        snd (disconnect E this orderid numbers tr)
          = tr @ [disconnect_request E this orderid numbers]
        \<and> rq_body (disconnect_request E this orderid numbers)
            = Some (js2xml E (disconnect_object orderid numbers))
        \<and> get_path (disconnect_object orderid numbers)
              [''DisconnectTelephoneNumberOrder'', ''DisconnectTelephoneNumberOrderType'',
               ''TelephoneNumberList'', ''TelephoneNumber''] = Inr numbers)
   \<and> (orderid \<noteq> JUndef \<longrightarrow>
        snd (disconnect E this orderid (JArr []) tr)
          = tr @ [disconnect_request E this orderid (JArr [])])
   \<and> (xs \<noteq> [] \<longrightarrow>
        disconnect_object orderid (JArr (wrapped_numbers xs))
          \<noteq> disconnect_object orderid (JArr xs))"
proof -
  have issued: "snd (disconnect E this orderid numbers tr)
                  = tr @ [disconnect_request E this orderid numbers]"
    if "orderid \<noteq> JUndef" "instanceof_Array numbers" for numbers
    using that
    by (cases numbers)
       (simp_all add: disconnect_def fetch_def split: response.splits)
  have early: "\<exists>e. disconnect E this orderid numbers tr = (Inl e, tr)"
    if "orderid = JUndef \<or> \<not> instanceof_Array numbers"
    using that by (auto simp: disconnect_def)
  have not_early: "disconnect E this orderid numbers tr \<noteq> (Inl e, tr)"
    if "orderid \<noteq> JUndef" "instanceof_Array numbers" for e
  proof
    assume "disconnect E this orderid numbers tr = (Inl e, tr)"
    then have "snd (disconnect E this orderid numbers tr) = tr" by simp
    with issued[OF that] show False by simp
  qed
  have a: "(\<exists>e. disconnect E this orderid numbers tr = (Inl e, tr))
      \<longleftrightarrow> (orderid = JUndef \<or> \<not> instanceof_Array numbers)"
    using early not_early by blast
  have b: "rq_body (disconnect_request E this orderid numbers)
            = Some (js2xml E (disconnect_object orderid numbers))"
    by (simp add: disconnect_request_def)
  have c: "get_path (disconnect_object orderid numbers)
              [''DisconnectTelephoneNumberOrder'', ''DisconnectTelephoneNumberOrderType'',
               ''TelephoneNumberList'', ''TelephoneNumber''] = Inr numbers"
    by (simp add: disconnect_object_def)
  have d: "orderid \<noteq> JUndef \<longrightarrow>
        snd (disconnect E this orderid (JArr []) tr)
          = tr @ [disconnect_request E this orderid (JArr [])]"
    using issued[of "JArr []"] by simp
  have e: "xs \<noteq> [] \<longrightarrow>
        disconnect_object orderid (JArr (wrapped_numbers xs))
          \<noteq> disconnect_object orderid (JArr xs)"
    using wrapped_numbers_differ[of xs] by (simp add: disconnect_object_def)
  from a issued[of numbers] b c d e show ?thesis by blast
qed

theorem disconnect_argument_check_witness:
  "\<not> (\<exists>e. disconnect (demo_env (server_replies xml_disconnect_received []))
             demo_client (JStr ''order-77'') (JArr [JStr ''9195551234'']) [] = (Inl e, []))
   \<and> snd (disconnect (demo_env (server_replies xml_disconnect_received []))
             demo_client (JStr ''order-77'') (JArr [JStr ''9195551234'']) [])
       = [disconnect_request (demo_env (server_replies xml_disconnect_received []))
            demo_client (JStr ''order-77'') (JArr [JStr ''9195551234''])]
   \<and> snd (disconnect (demo_env (server_replies xml_disconnect_received []))
             demo_client (JStr ''order-77'') (JArr []) [])
       = [disconnect_request (demo_env (server_replies xml_disconnect_received []))
            demo_client (JStr ''order-77'') (JArr [])]
   \<and> (\<exists>e. disconnect (demo_env (server_replies xml_disconnect_received []))
             demo_client (JStr ''order-77'') (JStr ''9195551234'') [] = (Inl e, []))
   \<and> disconnect_object (JStr ''order-77'') (JArr (wrapped_numbers [JStr ''9195551234'']))
       \<noteq> disconnect_object (JStr ''order-77'') (JArr [JStr ''9195551234''])"
  using disconnect_argument_check [of "demo_env (server_replies xml_disconnect_received [])"
      demo_client "JStr ''order-77''" "JArr [JStr ''9195551234'']" "[]" "[JStr ''9195551234'']"]
    disconnect_argument_check [of "demo_env (server_replies xml_disconnect_received [])"
      demo_client "JStr ''order-77''" "JStr ''9195551234''" "[]" "[JStr ''9195551234'']"]
  by simp

lemma disconnect_accepted_example:
  "disconnect (demo_env (server_replies xml_disconnect_received [])) demo_client
     (JStr ''order-77'') (JArr [JStr ''9195551234'']) []
   = (Inr \<lparr>textValue = xml_disconnect_received, json = JObj disconnect_received,
           accId = JStr ''acc-1'', site = JStr ''site-1'', sippeerId = JStr ''peer-1'',
           options = JObj [(''pageSize'', JNum 2)], headers = demo_headers,
           baseUrl = ''https://dashboard.bandwidth.com/api'', parses = 1\<rparr>,
      [disconnect_request (demo_env (server_replies xml_disconnect_received [])) demo_client
         (JStr ''order-77'') (JArr [JStr ''9195551234''])])"
  by (simp add: disconnect_def fetch_def demo_env_simps server_replies_def
      disconnect_request_def new_CBWDisconnectOrderResponse_def new_parsed_response_def
      new_CBWResponse_def toJSON_def demo_parse_simps demo_xml_nonempty demo_client_def)

subsection \<open>Allocate\<close>

lemma status_is_string [simp]: "status_is (Inr (JStr s)) lit \<longleftrightarrow> s = lit"
  by (simp add: status_is_def)

lemma status_is_absent [simp]:
  "\<not> status_is (Inl e) lit" "\<not> status_is (Inr JUndef) lit" "\<not> status_is (Inr JNull) lit"
  by (simp_all add: status_is_def)

lemma loose_eq_lit_truthy: "loose_eq_lit v ''RECEIVED'' \<Longrightarrow> truthy v"
  by (cases v) auto

text \<open>What the example server's answers are wrapped into.\<close>

lemma demo_order_placed:
  "searchAndOrderDID (demo_env (server_replies xml_order_received get_body)) demo_client
     demo_query tr
   = (Inr (demo_wrapper xml_order_received order_received),
      tr @ [order_request (demo_env (server_replies xml_order_received get_body)) demo_client
              demo_order_object])"
  by (simp add: searchAndOrderDID_def demo_query_def order_object_def with_quantity_def
      field_def demo_isNaN_def demo_env_simps demo_client_def demo_order_object_def
      fetch_def server_replies_def order_request_def new_CBWOrderResponse_def
      new_parsed_response_def new_CBWResponse_def toJSON_def demo_parse_simps
      demo_xml_nonempty demo_wrapper_def)

lemma demo_order_refused:
  "searchAndOrderDID (demo_env (server_replies xml_order_failed get_body)) demo_client
     demo_query tr
   = (Inr (demo_wrapper xml_order_failed order_failed),
      tr @ [order_request (demo_env (server_replies xml_order_failed get_body)) demo_client
              demo_order_object])"
  by (simp add: searchAndOrderDID_def demo_query_def order_object_def with_quantity_def
      field_def demo_isNaN_def demo_env_simps demo_client_def demo_order_object_def
      fetch_def server_replies_def order_request_def new_CBWOrderResponse_def
      new_parsed_response_def new_CBWResponse_def toJSON_def demo_parse_simps
      demo_xml_nonempty demo_wrapper_def)

text \<open>
  Claim C9. The order was placed and its response wrapped, and the \<open>Status\<close> of the
  response is not \<open>RECEIVED\<close> (another status, none, or a getter that throws). Then
  \<open>allocate\<close> never settles, and it issues no request after the order.
\<close>

theorem allocate_not_received_never_settles:
  assumes "searchAndOrderDID E this (if q = JUndef then JObj [] else q) tr = (Inr order, tr1)"
    and "\<not> status_is (Order_Status order) ''RECEIVED''"
  shows "allocate E this q tr = (Pending, tr1)"
proof (cases "Order_Status order")
  case (Inl e)
  with assms(1) show ?thesis by (simp add: allocate_def)
next
  case (Inr status)
  with assms(2) have "\<not> loose_eq_lit status ''RECEIVED''"
    by (simp add: status_is_def)
  with assms(1) Inr show ?thesis by (simp add: allocate_def)
qed

theorem allocate_not_received_never_settles_witness:
  "allocate (demo_env (server_replies xml_order_failed xml_completed_two)) demo_client
     demo_query []
   = (Pending,
      [order_request (demo_env (server_replies xml_order_failed xml_completed_two))
         demo_client demo_order_object])"
proof -
  have q: "(if demo_query = JUndef then JObj [] else demo_query) = demo_query"
    by (simp add: demo_query_def)
  have placed:
    "searchAndOrderDID (demo_env (server_replies xml_order_failed xml_completed_two))
       demo_client (if demo_query = JUndef then JObj [] else demo_query) []
     = (Inr (demo_wrapper xml_order_failed order_failed),
        [] @ [order_request (demo_env (server_replies xml_order_failed xml_completed_two))
                demo_client demo_order_object])"
    unfolding q by (rule demo_order_refused)
  have status: "\<not> status_is (Order_Status (demo_wrapper xml_order_failed order_failed))
                    ''RECEIVED''"
    by (simp add: Order_Status_def demo_wrapper_def order_failed_def)
  from allocate_not_received_never_settles [OF placed status] show ?thesis by simp
qed

text \<open>A wrapper that \<open>checkOrder\<close> returns has no parse (its body was empty) or has an
  object as its parse.\<close>

lemma new_parsed_response_json:
  assumes "new_parsed_response E text a s p opts h b = Inr w"
  shows "json w = JNull \<or> (\<exists>kvs. json w = JObj kvs \<and> textValue w \<noteq> [])"
  using assms
  by (auto simp: new_parsed_response_def new_CBWResponse_def toJSON_def
           split: if_splits sum.splits)

lemma checkOrder_json:
  assumes "checkOrder E this orderid tr = (Inr check, tr')"
  shows "(json check = JNull \<or> (\<exists>kvs. json check = JObj kvs \<and> textValue check \<noteq> []))
         \<and> tr' = tr @ [check_request this orderid]"
  using assms
  by (auto simp: checkOrder_def fetch_def new_CBWCheckOrderResponse_def
           split: if_splits response.splits dest: new_parsed_response_json)

text \<open>
  The path of claim C1: the order is \<open>RECEIVED\<close>, so one check is made. When the check is
  \<open>COMPLETE\<close>, \<open>allocate\<close> gives the unified result of the check's parse with the order
  id attached (or the \<open>TypeError\<close> of building it).
\<close>

lemma allocate_received_complete:
  assumes "searchAndOrderDID E this (if q = JUndef then JObj [] else q) tr = (Inr order, tr1)"
    and "status_is (Order_Status order) ''RECEIVED''"
    and "Order_Id order = Inr order_id"
    and "checkOrder E this order_id tr1 = (Inr check, tr2)"
    and "status_is (CheckOrder_Status check) ''COMPLETE''"
  shows "\<exists>kvs. json check = JObj kvs
           \<and> allocate E this q tr
               = ((case Unified_Response (JObj (set_field kvs ''order_id'' order_id)) of
                     Inl e \<Rightarrow> Threw e
                   | Inr r \<Rightarrow> Returned r), tr2)
           \<and> tr2 = tr1 @ [check_request this order_id]"
proof -
  obtain status where st: "Order_Status order = Inr status" "loose_eq_lit status ''RECEIVED''"
    using assms(2) by (auto simp: status_is_def split: sum.splits)
  then have tst: "truthy status" by (simp add: loose_eq_lit_truthy)
  obtain cst where cst: "CheckOrder_Status check = Inr cst" "loose_eq_lit cst ''COMPLETE''"
    using assms(5) by (auto simp: status_is_def split: sum.splits)
  have "json check \<noteq> JNull"
    using cst by (auto simp: CheckOrder_Status_def)
  with checkOrder_json[OF assms(4)] obtain kvs where
    kvs: "json check = JObj kvs" "textValue check \<noteq> []"
    and tr2: "tr2 = tr1 @ [check_request this order_id]"
    by auto
  have tj: "toJSON E check = (Inr (JObj kvs), check)"
    using kvs by (simp add: toJSON_def)
  have "allocate E this q tr
          = ((case Unified_Response (JObj (set_field kvs ''order_id'' order_id)) of
                Inl e \<Rightarrow> Threw e
              | Inr r \<Rightarrow> Returned r), tr2)"
    unfolding allocate_def
    by (simp add: assms(1,3,4) st tst cst tj split: sum.splits)
  with kvs(1) tr2 show ?thesis by blast
qed

text \<open>When the check has any other status string, \<open>allocate\<close> does not throw: it returns
  \<open>undefined\<close>, the property \<open>Response\<close> of that string.\<close>

lemma allocate_received_other:
  assumes "searchAndOrderDID E this (if q = JUndef then JObj [] else q) tr = (Inr order, tr1)"
    and "status_is (Order_Status order) ''RECEIVED''"
    and "Order_Id order = Inr order_id"
    and "checkOrder E this order_id tr1 = (Inr check, tr2)"
    and "CheckOrder_Status check = Inr (JStr s)"
    and "s \<noteq> ''COMPLETE''"
  shows "allocate E this q tr = (Returned JUndef, tr1 @ [check_request this order_id])"
proof -
  obtain status where st: "Order_Status order = Inr status" "loose_eq_lit status ''RECEIVED''"
    using assms(2) by (auto simp: status_is_def split: sum.splits)
  then have tst: "truthy status" by (simp add: loose_eq_lit_truthy)
  have tr2: "tr2 = tr1 @ [check_request this order_id]"
    using checkOrder_json[OF assms(4)] by simp
  show ?thesis
    unfolding allocate_def
    by (simp add: assms(1,3,4,5,6) st tst tr2)
qed

lemma demo_check_failed:
  "checkOrder (demo_env (server_replies post_body xml_check_failed)) demo_client
     (JStr ''order-77'') tr
   = (Inr (demo_wrapper xml_check_failed check_failed),
      tr @ [check_request demo_client (JStr ''order-77'')])"
  by (simp add: checkOrder_def fetch_def demo_env_simps server_replies_def check_request_def
      new_CBWCheckOrderResponse_def new_parsed_response_def new_CBWResponse_def toJSON_def
      demo_parse_simps demo_xml_nonempty demo_wrapper_def demo_client_def)

lemma demo_check_complete:
  "checkOrder (demo_env (server_replies post_body xml_completed_two)) demo_client
     (JStr ''order-77'') tr
   = (Inr (demo_wrapper xml_completed_two completed_two),
      tr @ [check_request demo_client (JStr ''order-77'')])"
  by (simp add: checkOrder_def fetch_def demo_env_simps server_replies_def check_request_def
      new_CBWCheckOrderResponse_def new_parsed_response_def new_CBWResponse_def toJSON_def
      demo_parse_simps demo_xml_nonempty demo_wrapper_def demo_client_def)

text \<open>
  Claim C1, at the input where the code departs from it. The order is \<open>RECEIVED\<close> and the
  one check that follows has the status \<open>FAILED\<close>. \<open>allocate\<close> does not fail with
  \<open>FAILED\<close>: it returns \<open>undefined\<close>.
\<close>

theorem allocate_failed_check_returns_undefined:
  "allocate (demo_env (server_replies xml_order_received xml_check_failed)) demo_client
     demo_query []
   = (Returned JUndef,
      [order_request (demo_env (server_replies xml_order_received xml_check_failed))
         demo_client demo_order_object,
       check_request demo_client (JStr ''order-77'')])"
proof -
  let ?E = "demo_env (server_replies xml_order_received xml_check_failed)"
  let ?order = "demo_wrapper xml_order_received order_received"
  let ?tr1 = "[] @ [order_request ?E demo_client demo_order_object]"
  have q: "(if demo_query = JUndef then JObj [] else demo_query) = demo_query"
    by (simp add: demo_query_def)
  have placed: "searchAndOrderDID ?E demo_client
                  (if demo_query = JUndef then JObj [] else demo_query) [] = (Inr ?order, ?tr1)"
    unfolding q by (rule demo_order_placed)
  have status: "status_is (Order_Status ?order) ''RECEIVED''"
    by (simp add: Order_Status_def demo_wrapper_def order_received_def)
  have ident: "Order_Id ?order = Inr (JStr ''order-77'')"
    by (simp add: Order_Id_def demo_wrapper_def order_received_def)
  have checked: "checkOrder ?E demo_client (JStr ''order-77'') ?tr1
                   = (Inr (demo_wrapper xml_check_failed check_failed),
                      ?tr1 @ [check_request demo_client (JStr ''order-77'')])"
    by (rule demo_check_failed)
  have failed: "CheckOrder_Status (demo_wrapper xml_check_failed check_failed)
                  = Inr (JStr ''FAILED'')"
    by (simp add: CheckOrder_Status_def demo_wrapper_def check_failed_def)
  from allocate_received_other [OF placed status ident checked failed]
  show ?thesis by simp
qed

text \<open>The same order with a check that is \<open>COMPLETE\<close>: the unified result of the two
  numbers.\<close>

lemma allocate_complete_example:
  "allocate (demo_env (server_replies xml_order_received xml_completed_two)) demo_client
     demo_query []
   = (Returned (JObj [(''dids'', JArr
        [did_of (JStr ''500709'') (JStr ''order-77'') ''9195551234'' (JStr ''919''),
         did_of (JStr ''500709'') (JStr ''order-77'') ''9195555678'' (JStr ''919'')]),
        (''resultCount'', JNum 2)]),
      [order_request (demo_env (server_replies xml_order_received xml_completed_two))
         demo_client demo_order_object,
       check_request demo_client (JStr ''order-77'')])"
proof -
  let ?E = "demo_env (server_replies xml_order_received xml_completed_two)"
  let ?order = "demo_wrapper xml_order_received order_received"
  let ?check = "demo_wrapper xml_completed_two completed_two"
  let ?tr1 = "[] @ [order_request ?E demo_client demo_order_object]"
  have q: "(if demo_query = JUndef then JObj [] else demo_query) = demo_query"
    by (simp add: demo_query_def)
  have placed: "searchAndOrderDID ?E demo_client
                  (if demo_query = JUndef then JObj [] else demo_query) [] = (Inr ?order, ?tr1)"
    unfolding q by (rule demo_order_placed)
  have status: "status_is (Order_Status ?order) ''RECEIVED''"
    by (simp add: Order_Status_def demo_wrapper_def order_received_def)
  have ident: "Order_Id ?order = Inr (JStr ''order-77'')"
    by (simp add: Order_Id_def demo_wrapper_def order_received_def)
  have checked: "checkOrder ?E demo_client (JStr ''order-77'') ?tr1
                   = (Inr ?check, ?tr1 @ [check_request demo_client (JStr ''order-77'')])"
    by (rule demo_check_complete)
  have complete: "status_is (CheckOrder_Status ?check) ''COMPLETE''"
    by (simp add: CheckOrder_Status_def demo_wrapper_def completed_two_def)
  have unified:
    "Unified_Response (JObj (set_field completed_two ''order_id'' (JStr ''order-77'')))
       = Inr (JObj [(''dids'', JArr
           [did_of (JStr ''500709'') (JStr ''order-77'') ''9195551234'' (JStr ''919''),
            did_of (JStr ''500709'') (JStr ''order-77'') ''9195555678'' (JStr ''919'')]),
           (''resultCount'', JNum 2)])"
    by (simp add: completed_two_def Unified_Response_def did_entry_def did_of_def
        parseAreaCode_def substring_def Let_def)
  from allocate_received_complete [OF placed status ident checked complete] unified
  show ?thesis by (simp add: demo_wrapper_def)
qed

subsection \<open>The page iterator\<close>

text \<open>The value that the chain of \<open>|| {}\<close> reaches, one step at a time.\<close>

lemma get_prop_or_empty:
  "get_prop (or_empty v) k = Inr (case v of JObj kvs \<Rightarrow> field kvs k | _ \<Rightarrow> JUndef)"
  by (cases v) (simp_all add: or_empty_def field_def)

lemma lookup_path_child:
  "lookup_path v (k # ks)
     = (case v of
          JObj kvs \<Rightarrow> (case map_of kvs k of None \<Rightarrow> None | Some u \<Rightarrow> lookup_path u ks)
        | _ \<Rightarrow> None)"
  by (cases v) simp_all

lemma next_link_text_value:
  "next_link_text j
     = Inr (case lookup_path j next_link_path of None \<Rightarrow> JUndef | Some t \<Rightarrow> t)"
  unfolding next_link_text_def next_link_path_def get_prop_or_empty lookup_path_child
  by (simp add: field_def split: jv.splits option.splits)

lemma lookup_path_get_path: "lookup_path v ks = Some t \<Longrightarrow> get_path v ks = Inr t"
proof (induction v ks rule: lookup_path.induct)
  case (2 kvs k ks)
  then show ?case by (simp split: option.splits)
qed simp_all

lemma toJSON_again:
  assumes "toJSON E w = (Inr j, w1)"
  shows "toJSON E w1 = (Inr j, w1)"
  using assms by (auto simp: toJSON_def split: if_splits sum.splits)

lemma toJSON_keeps:
  assumes "toJSON E w = (r, w1)"
  shows "headers w1 = headers w" and "textValue w1 = textValue w"
    and "constructed w1 = constructed w"
  using assms by (auto simp: toJSON_def constructed_def split: if_splits sum.splits)

text \<open>When the body has no next-link, \<open>next()\<close> is done.\<close>

lemma TNS_next_done:
  assumes "toJSON E w = (Inr j, w1)" and "\<not> has_next_link j"
  shows "TNS_next E w tr = (Inr Done, w1, tr)"
  using assms
  by (simp add: TNS_next_def next_link_text_value has_next_link_def split: option.splits)

text \<open>When it has one, \<open>next()\<close> throws if the link holds no URL in angle brackets, and
  otherwise yields the fetch of that URL.\<close>

lemma TNS_next_link:
  assumes "toJSON E w = (Inr j, w1)"
    and "lookup_path j next_link_path = Some t" and "truthy t"
  shows "TNS_next E w tr =
     (case regex_exec (js_to_string t) of
        None \<Rightarrow> (Inl TypeError, w1, tr)
      | Some link \<Rightarrow>
          (Inr (Yield (network E tr (page_request (headers w) link))), w1,
           tr @ [page_request (headers w) link]))"
proof -
  have path: "get_path j [''SipPeerTelephoneNumbersResponse'', ''Links'', ''next'', ''_text'']
                = Inr t"
    using lookup_path_get_path[OF assms(2)] by (simp only: next_link_path_def)
  have h: "headers w1 = headers w"
    using toJSON_keeps(1)[OF assms(1)] .
  show ?thesis
    unfolding TNS_next_def
    by (simp only: assms(1) toJSON_again[OF assms(1)] next_link_text_value assms(2,3) path h
        fetch_def prod.case sum.case option.case not_True_eq_False if_False
        split: option.splits)
qed

text \<open>The URL between the first \<open><\<close> and the last \<open>>\<close> is what the expression extracts.\<close>

lemma greedy_group_bracket:
  assumes "u \<noteq> []" and "\<forall>c \<in> set u. \<not> line_terminator c" and "CHR ''>'' \<notin> set post"
  shows "greedy_group (u @ CHR ''>'' # post) = Some u"
proof -
  let ?tw = "takeWhile (\<lambda>c. \<not> line_terminator c) post"
  have tw: "takeWhile (\<lambda>c. \<not> line_terminator c) (u @ CHR ''>'' # post) = u @ CHR ''>'' # ?tw"
    using assms(2) by (simp add: takeWhile_append2 line_terminator_def)
  have "CHR ''>'' \<notin> set ?tw"
    using assms(3) by (meson set_takeWhileD)
  then have "dropWhile (\<lambda>c. c \<noteq> CHR ''>'') (rev ?tw @ CHR ''>'' # rev u) = CHR ''>'' # rev u"
    by (subst dropWhile_append2) auto
  then show ?thesis
    using assms(1) by (simp add: greedy_group_def tw)
qed

lemma regex_exec_bracket:
  assumes "CHR ''<'' \<notin> set pre" and "u \<noteq> []" and "\<forall>c \<in> set u. \<not> line_terminator c"
    and "CHR ''>'' \<notin> set post"
  shows "regex_exec (pre @ ''<'' @ u @ ''>'' @ post) = Some u"
  using assms(1)
proof (induction pre)
  case Nil
  then show ?case using greedy_group_bracket[OF assms(2,3,4)] by simp
next
  case (Cons c pre)
  then show ?case by auto
qed

text \<open>Awaiting a page that was fetched with success: the iterated wrapper holds the new
  body, unparsed, and the value is a new wrapper around the same body.\<close>

lemma TNS_next_await_ok:
  assumes "constructed w"
  shows "TNS_next_await (HttpResponse True statusText body) w
           = (Inr (w\<lparr>textValue := body, json := JNull, parses := 0, nextIndex := 0\<rparr>),
              w\<lparr>textValue := body, json := JNull, nextIndex := nextIndex w + 1\<rparr>)"
  using assms
  by (simp add: TNS_next_await_def set_text_def new_CBWTNSResponse_def new_CBWResponse_def
      constructed_def Let_def CBWTNSResponse.fields_def)

text \<open>
  Claim C3. For a listing wrapper whose body parses (to \<open>j\<close>): \<open>next()\<close> reports \<open>done\<close>
  exactly when \<open>j\<close> contains no next-link. When it contains one, with a URL \<open>link\<close>
  in angle brackets, \<open>next()\<close> issues the request for \<open>link\<close> with the wrapper's headers
  and yields its outcome; and when that outcome is a success with the body \<open>body\<close>,
  awaiting the yielded value leaves the iterated wrapper with \<open>body\<close> as its raw text,
  no parse and the index advanced, and gives a new wrapper around \<open>body\<close>.
\<close>

theorem TNS_next_step:
  assumes "toJSON E w = (Inr j, w1)"
  shows "((\<exists>w' tr'. TNS_next E w tr = (Inr Done, w', tr')) \<longleftrightarrow> \<not> has_next_link j)
    \<and> (lookup_path j next_link_path = Some t \<and> truthy t
          \<and> regex_exec (js_to_string t) = Some link \<longrightarrow>
        TNS_next E w tr
          = (Inr (Yield (network E tr (page_request (headers w) link))), w1,
             tr @ [page_request (headers w) link]))
    \<and> (constructed w \<longrightarrow>
        (\<exists>page w2. TNS_next_await (HttpResponse True statusText body) w1 = (Inr page, w2)
           \<and> textValue w2 = body \<and> json w2 = JNull \<and> nextIndex w2 = nextIndex w1 + 1
           \<and> textValue page = body))"
proof -
  have a: "(\<exists>w' tr'. TNS_next E w tr = (Inr Done, w', tr')) \<longleftrightarrow> \<not> has_next_link j"
  proof
    assume finished: "\<exists>w' tr'. TNS_next E w tr = (Inr Done, w', tr')"
    show "\<not> has_next_link j"
    proof
      assume "has_next_link j"
      then obtain t' where t': "lookup_path j next_link_path = Some t'" "truthy t'"
        by (auto simp: has_next_link_def split: option.splits)
      from TNS_next_link[OF assms t', of tr] finished show False
        by (auto split: option.splits)
    qed
  next
    assume "\<not> has_next_link j"
    from TNS_next_done[OF assms this] show "\<exists>w' tr'. TNS_next E w tr = (Inr Done, w', tr')"
      by blast
  qed
  have b: "lookup_path j next_link_path = Some t \<and> truthy t
          \<and> regex_exec (js_to_string t) = Some link \<longrightarrow>
        TNS_next E w tr
          = (Inr (Yield (network E tr (page_request (headers w) link))), w1,
             tr @ [page_request (headers w) link])"
  proof (intro impI, elim conjE)
    assume "lookup_path j next_link_path = Some t" "truthy t"
      and r: "regex_exec (js_to_string t) = Some link"
    from TNS_next_link[OF assms this(1,2), of tr] r show "TNS_next E w tr
          = (Inr (Yield (network E tr (page_request (headers w) link))), w1,
             tr @ [page_request (headers w) link])"
      by simp
  qed
  have c: "constructed w \<longrightarrow>
        (\<exists>page w2. TNS_next_await (HttpResponse True statusText body) w1 = (Inr page, w2)
           \<and> textValue w2 = body \<and> json w2 = JNull \<and> nextIndex w2 = nextIndex w1 + 1
           \<and> textValue page = body)"
  proof
    assume "constructed w"
    then have "constructed w1" using toJSON_keeps(3)[OF assms] by simp
    from TNS_next_await_ok[OF this, of statusText body] show
      "\<exists>page w2. TNS_next_await (HttpResponse True statusText body) w1 = (Inr page, w2)
           \<and> textValue w2 = body \<and> json w2 = JNull \<and> nextIndex w2 = nextIndex w1 + 1
           \<and> textValue page = body"
      by simp
  qed
  from a b c show ?thesis by blast
qed

lemma demo_listing_parsed:
  "toJSON (demo_env server) (demo_listing xml_tns_page1)
     = (Inr (JObj tns_page1), (demo_listing xml_tns_page1)\<lparr>json := JObj tns_page1, parses := 1\<rparr>)"
  "toJSON (demo_env server) (demo_listing xml_tns_page2)
     = (Inr (JObj tns_page2), (demo_listing xml_tns_page2)\<lparr>json := JObj tns_page2, parses := 1\<rparr>)"
  by (simp_all add: toJSON_def demo_listing_def demo_env_simps demo_parse_simps demo_xml_nonempty)

lemma demo_link_extracted:
  "regex_exec (js_to_string (JStr (''Link=<'' @ url_page2 @ ''>;rel=next;''))) = Some url_page2"
proof -
  have "regex_exec (''Link='' @ ''<'' @ url_page2 @ ''>'' @ '';rel=next;'') = Some url_page2"
    by (rule regex_exec_bracket) (simp_all add: url_page2_def line_terminator_def)
  then show ?thesis by simp
qed

theorem TNS_next_step_witness:
  "\<not> (\<exists>w' tr'. TNS_next (demo_env server_pages) (demo_listing xml_tns_page1) []
                   = (Inr Done, w', tr'))
   \<and> TNS_next (demo_env server_pages) (demo_listing xml_tns_page1) []
       = (Inr (Yield (HttpResponse True ''OK'' xml_tns_page2)),
          (demo_listing xml_tns_page1)\<lparr>json := JObj tns_page1, parses := 1\<rparr>,
          [page_request demo_headers url_page2])
   \<and> (\<exists>page w2.
         TNS_next_await (HttpResponse True ''OK'' xml_tns_page2)
           ((demo_listing xml_tns_page1)\<lparr>json := JObj tns_page1, parses := 1\<rparr>)
           = (Inr page, w2)
         \<and> textValue w2 = xml_tns_page2 \<and> json w2 = JNull \<and> nextIndex w2 = 1
         \<and> textValue page = xml_tns_page2)
   \<and> (\<exists>w' tr'. TNS_next (demo_env server_pages) (demo_listing xml_tns_page2)
                   [page_request demo_headers url_page2] = (Inr Done, w', tr'))"
proof -
  have link: "lookup_path (JObj tns_page1) next_link_path
                = Some (JStr (''Link=<'' @ url_page2 @ ''>;rel=next;''))"
    by (simp add: tns_page1_def next_link_path_def)
  have has: "has_next_link (JObj tns_page1)"
    by (simp add: has_next_link_def link)
  have last: "\<not> has_next_link (JObj tns_page2)"
    by (simp add: has_next_link_def tns_page2_def next_link_path_def)
  have made: "constructed (demo_listing xml_tns_page1)"
    by (simp add: constructed_def demo_listing_def)
  have served: "network (demo_env server_pages) [] (page_request demo_headers url_page2)
                  = HttpResponse True ''OK'' xml_tns_page2"
    by (simp add: demo_env_simps server_pages_def page_request_def)
  have h: "headers (demo_listing xml_tns_page1) = demo_headers"
    by (simp add: demo_listing_def)
  from TNS_next_step [OF demo_listing_parsed(1), of server_pages "[]"
        "JStr (''Link=<'' @ url_page2 @ ''>;rel=next;'')" url_page2 "''OK''" xml_tns_page2]
    TNS_next_step [OF demo_listing_parsed(2), of server_pages
        "[page_request demo_headers url_page2]"]
    link has last made served h demo_link_extracted
  show ?thesis
    by (simp add: demo_listing_def)
qed

subsection \<open>All pages\<close>

lemma pages_from_first:
  assumes "pages_from E h text tr nss tr'"
  shows "\<exists>kvs ns rest. text \<noteq> [] \<and> xml2js E text = Inr kvs
           \<and> TNS_numbers_of (JObj kvs) = Inr (JArr ns) \<and> nss = ns # rest"
  using assms by (cases rule: pages_from.cases) auto

text \<open>One request per page after the first.\<close>

lemma pages_from_log:
  assumes "pages_from E h text tr nss tr'"
  shows "\<exists>more. tr' = tr @ more \<and> length more + 1 = length nss"
  using assms by (induction rule: pages_from.induct) auto

text \<open>\<open>Numbers\<close> of a wrapper whose body parses and that has no parse, or the parse of its
  body, in store.\<close>

lemma TNS_Numbers_parsed:
  assumes "textValue w \<noteq> []" and "xml2js E (textValue w) = Inr kvs"
    and "json w = JNull \<or> json w = JObj kvs"
  shows "\<exists>w'. TNS_Numbers E w = (TNS_numbers_of (JObj kvs), w') \<and> json w' = JObj kvs
           \<and> textValue w' = textValue w \<and> headers w' = headers w
           \<and> constructed w' = constructed w"
  using assms by (auto simp: TNS_Numbers_def toJSON_def constructed_def)

lemma toJSON_parsed:
  assumes "textValue w \<noteq> []" and "xml2js E (textValue w) = Inr kvs"
    and "json w = JNull \<or> json w = JObj kvs"
  shows "\<exists>w'. toJSON E w = (Inr (JObj kvs), w') \<and> json w' = JObj kvs
           \<and> textValue w' = textValue w \<and> headers w' = headers w
           \<and> constructed w' = constructed w"
  using assms by (auto simp: toJSON_def constructed_def)

text \<open>The loop, started on a wrapper around the first of the pages with the numbers
  gathered so far: it adds the numbers of the pages that follow, and needs no more fuel
  than there are pages.\<close>

lemma TNSAll_loop_pages:
  assumes "pages_from E h text tr nss tr'"
    and "textValue w = text" and "headers w = h" and "constructed w"
    and "json w = JNull \<or> (\<exists>kvs. xml2js E text = Inr kvs \<and> json w = JObj kvs)"
    and "length nss \<le> fuel"
  shows "TNSAll_loop fuel E w (JArr rs) tr = Some (Inr (JArr (rs @ concat (tl nss))), tr')"
  using assms
proof (induction arbitrary: w rs fuel rule: pages_from.induct)
  case (last_page doc kvs ns tr)
  from last_page.prems(5) obtain fuel' where fuel: "fuel = Suc fuel'"
    by (cases fuel) auto
  have "json w = JNull \<or> json w = JObj kvs"
    using last_page.prems(4) last_page.hyps(2) by auto
  with toJSON_parsed[of w E kvs] last_page.hyps(1,2) last_page.prems(1)
  obtain w1 where w1: "toJSON E w = (Inr (JObj kvs), w1)"
    by auto
  from TNS_next_done[OF w1 last_page.hyps(4)]
  show ?case by (simp add: fuel)
next
  case (next_page doc kvs ns t link tr statusText body nss tr')
  from next_page.prems(5) obtain fuel' where fuel: "fuel = Suc fuel'" "length nss \<le> fuel'"
    by (cases fuel) auto
  have "json w = JNull \<or> json w = JObj kvs"
    using next_page.prems(4) next_page.hyps(2) by auto
  with toJSON_parsed[of w E kvs] next_page.hyps(1,2) next_page.prems(1)
  obtain w1 where w1: "toJSON E w = (Inr (JObj kvs), w1)"
    and w1': "headers w1 = headers w" "constructed w1 = constructed w"
    by auto
  have nxt: "TNS_next E w tr
               = (Inr (Yield (HttpResponse True statusText body)), w1,
                  tr @ [page_request h link])"
    using TNS_next_link[OF w1 next_page.hyps(4,5), of tr] next_page.hyps(6,7)
      next_page.prems(2)
    by simp
  let ?page = "w1\<lparr>textValue := body, json := JNull, parses := 0, nextIndex := 0\<rparr>"
  let ?w2 = "w1\<lparr>textValue := body, json := JNull, nextIndex := nextIndex w1 + 1\<rparr>"
  have aw: "TNS_next_await (HttpResponse True statusText body) w1 = (Inr ?page, ?w2)"
    using next_page.prems(3) w1'(2) by (intro TNS_next_await_ok) simp
  from pages_from_first[OF next_page.hyps(8)] obtain kvs' ns' rest where
    first: "body \<noteq> []" "xml2js E body = Inr kvs'"
      "TNS_numbers_of (JObj kvs') = Inr (JArr ns')" "nss = ns' # rest"
    by blast
  from TNS_Numbers_parsed[of ?page E kvs'] first(1,2)
  obtain page' where nums: "TNS_Numbers E ?page = (Inr (JArr ns'), page')"
    by (auto simp: first(3))
  have rec: "TNSAll_loop fuel' E ?w2 (JArr (rs @ ns')) (tr @ [page_request h link])
               = Some (Inr (JArr ((rs @ ns') @ concat (tl nss))), tr')"
    using next_page.prems(2,3) w1' fuel(2)
    by (intro next_page.IH) (simp_all add: constructed_def)
  from rec show ?case
    by (simp add: fuel(1) nxt aw nums first(4))
qed

text \<open>
  Claim C7. The listing of a SIP peer is fetched with success, and from its first page the
  pages follow one another through their next-links, each fetched with success, until a
  page has none; every page has its \<open>Numbers\<close>. Then the eager operation, given at least
  as much fuel as there are pages, returns the \<open>Numbers\<close> of the first page followed by
  those of each later page in the order of the fetches; it has issued one request per
  page and none after the page without a next-link.
\<close>

theorem getSipPeersTNSAll_concatenates:
  assumes "p \<noteq> JUndef" and "cl_accId this \<noteq> JUndef" and "cl_site this \<noteq> JUndef"
    and "get_prop (cl_options this) ''pageSize'' = Inr pageSize"
    and "network E tr (tns_request this p pageSize) = HttpResponse True statusText text"
    and "pages_from E (cl_headers this) text (tr @ [tns_request this p pageSize]) nss tr'"
    and "length nss \<le> fuel"
  shows "getSipPeersTNSAll fuel E this p tr = Some (Inr (JArr (concat nss)), tr')
         \<and> length tr' = length tr + length nss"
proof -
  let ?tr1 = "tr @ [tns_request this p pageSize]"
  have opts: "cl_options this \<noteq> JUndef"
    using assms(4) by auto
  let ?w = "\<lparr>textValue = text, json = JNull, accId = cl_accId this, site = cl_site this,
             sippeerId = p, options = cl_options this, headers = cl_headers this,
             baseUrl = cl_baseUrl this, parses = 0, nextIndex = 0\<rparr>"
  have listed: "getSipPeersTNS E this p tr = (Inr ?w, ?tr1)"
    using assms(1,2,3,4,5) opts
    by (simp add: getSipPeersTNS_def fetch_def new_CBWTNSResponse_def new_CBWResponse_def
        CBWTNSResponse.fields_def)
  from pages_from_first[OF assms(6)] obtain kvs ns rest where
    first: "text \<noteq> []" "xml2js E text = Inr kvs"
      "TNS_numbers_of (JObj kvs) = Inr (JArr ns)" "nss = ns # rest"
    by blast
  from TNS_Numbers_parsed[of ?w E kvs] first(1,2)
  obtain w' where nums: "TNS_Numbers E ?w = (Inr (JArr ns), w')"
    and w': "json w' = JObj kvs" "textValue w' = text" "headers w' = cl_headers this"
      "constructed w' = constructed ?w"
    by (auto simp: first(3))
  have made: "constructed w'"
    using w'(4) assms(1,2,3) opts by (simp add: constructed_def)
  have "TNSAll_loop fuel E w' (JArr ns) ?tr1 = Some (Inr (JArr (ns @ concat (tl nss))), tr')"
    using assms(6) w'(2,3) made _ assms(7)
    by (rule TNSAll_loop_pages) (simp add: w'(1) first(2))
  then have "getSipPeersTNSAll fuel E this p tr = Some (Inr (JArr (concat nss)), tr')"
    using assms(1) by (simp add: getSipPeersTNSAll_def listed nums first(4))
  moreover have "length tr' = length tr + length nss"
    using pages_from_log[OF assms(6)] by auto
  ultimately show ?thesis by simp
qed

lemma demo_pages:
  "pages_from (demo_env server_pages) demo_headers xml_tns_page1
     [tns_request demo_client (JStr ''peer-1'') (JNum 2)]
     [[JStr ''9195551234'', JStr ''9195555678''], [JStr ''9195550000'']]
     [tns_request demo_client (JStr ''peer-1'') (JNum 2), page_request demo_headers url_page2]"
proof -
  let ?E = "demo_env server_pages"
  let ?tr1 = "[tns_request demo_client (JStr ''peer-1'') (JNum 2)]"
  have second: "pages_from ?E demo_headers xml_tns_page2
                  (?tr1 @ [page_request demo_headers url_page2]) [[JStr ''9195550000'']]
                  (?tr1 @ [page_request demo_headers url_page2])"
  proof (rule pages_from.last_page)
    show "xml_tns_page2 \<noteq> []" by (rule demo_xml_nonempty)
    show "xml2js ?E xml_tns_page2 = Inr tns_page2"
      by (simp add: demo_env_simps demo_parse_simps)
    show "TNS_numbers_of (JObj tns_page2) = Inr (JArr [JStr ''9195550000''])"
      by (simp add: TNS_numbers_of_def tns_page2_def)
    show "\<not> has_next_link (JObj tns_page2)"
      by (simp add: has_next_link_def tns_page2_def next_link_path_def)
  qed
  have "pages_from ?E demo_headers xml_tns_page1 ?tr1
          [[JStr ''9195551234'', JStr ''9195555678''], [JStr ''9195550000'']]
          (?tr1 @ [page_request demo_headers url_page2])"
  proof (rule pages_from.next_page)
    show "xml_tns_page1 \<noteq> []" by (rule demo_xml_nonempty)
    show "xml2js ?E xml_tns_page1 = Inr tns_page1"
      by (simp add: demo_env_simps demo_parse_simps)
    show "TNS_numbers_of (JObj tns_page1)
            = Inr (JArr [JStr ''9195551234'', JStr ''9195555678''])"
      by (simp add: TNS_numbers_of_def tns_page1_def)
    show "lookup_path (JObj tns_page1) next_link_path
            = Some (JStr (''Link=<'' @ url_page2 @ ''>;rel=next;''))"
      by (simp add: tns_page1_def next_link_path_def)
    show "truthy (JStr (''Link=<'' @ url_page2 @ ''>;rel=next;''))" by simp
    show "regex_exec (js_to_string (JStr (''Link=<'' @ url_page2 @ ''>;rel=next;'')))
            = Some url_page2"
      by (rule demo_link_extracted)
    show "network ?E ?tr1 (page_request demo_headers url_page2)
            = HttpResponse True ''OK'' xml_tns_page2"
      by (simp add: demo_env_simps server_pages_def page_request_def)
    show "pages_from ?E demo_headers xml_tns_page2
            (?tr1 @ [page_request demo_headers url_page2]) [[JStr ''9195550000'']]
            (?tr1 @ [page_request demo_headers url_page2])"
      by (rule second)
  qed
  then show ?thesis by simp
qed

theorem getSipPeersTNSAll_concatenates_witness:
  "getSipPeersTNSAll 2 (demo_env server_pages) demo_client (JStr ''peer-1'') []
     = Some (Inr (JArr [JStr ''9195551234'', JStr ''9195555678'', JStr ''9195550000'']),
             [tns_request demo_client (JStr ''peer-1'') (JNum 2),
              page_request demo_headers url_page2])"
proof -
  have first: "network (demo_env server_pages) [] (tns_request demo_client (JStr ''peer-1'') (JNum 2))
                 = HttpResponse True ''OK'' xml_tns_page1"
    by (simp add: demo_env_simps server_pages_def tns_request_def demo_client_def
        url_page2_def int_to_string_def nat_to_string.simps)
  have pages: "pages_from (demo_env server_pages) (cl_headers demo_client) xml_tns_page1
     ([] @ [tns_request demo_client (JStr ''peer-1'') (JNum 2)])
     [[JStr ''9195551234'', JStr ''9195555678''], [JStr ''9195550000'']]
     [tns_request demo_client (JStr ''peer-1'') (JNum 2), page_request demo_headers url_page2]"
    using demo_pages by (simp add: demo_client_def)
  have "getSipPeersTNSAll 2 (demo_env server_pages) demo_client (JStr ''peer-1'') []
     = Some (Inr (JArr (concat [[JStr ''9195551234'', JStr ''9195555678''],
                                [JStr ''9195550000'']])),
             [tns_request demo_client (JStr ''peer-1'') (JNum 2),
              page_request demo_headers url_page2])
     \<and> length [tns_request demo_client (JStr ''peer-1'') (JNum 2),
               page_request demo_headers url_page2]
         = length ([] :: request list)
           + length [[JStr ''9195551234'', JStr ''9195555678''], [JStr ''9195550000'']]"
    by (rule getSipPeersTNSAll_concatenates [OF _ _ _ _ first pages])
       (simp_all add: demo_client_def)
  then show ?thesis by simp
qed

subsection \<open>The parse kept by a wrapper\<close>

lemma set_text_in_sync: "in_sync E (set_text w t) True"
  by (simp add: in_sync_def set_text_def)

lemma set_text_fields: "textValue (set_text w t) = t" "parses (set_text w t) = parses w"
  by (simp_all add: set_text_def)

text \<open>A read that finds the text changed parses it, and stores the parse; any other read
  returns what is stored.\<close>

lemma toJSON_in_sync:
  assumes "in_sync E w changed"
  shows "fst (toJSON E w) = parse_now E (textValue w)"
    and "textValue (snd (toJSON E w)) = textValue w"
    and "changed \<and> textValue w \<noteq> [] \<and> \<not> isl (xml2js E (textValue w)) \<Longrightarrow>
           in_sync E (snd (toJSON E w)) False \<and> parses (snd (toJSON E w)) = parses w + 1"
    and "\<not> (changed \<and> textValue w \<noteq> [] \<and> \<not> isl (xml2js E (textValue w))) \<Longrightarrow>
           in_sync E (snd (toJSON E w)) changed \<and> parses (snd (toJSON E w)) = parses w"
proof -
  show "fst (toJSON E w) = parse_now E (textValue w)"
    using assms
    by (cases changed; cases "json w")
       (auto simp: in_sync_def toJSON_def parse_now_def split: sum.splits if_splits)
  show "textValue (snd (toJSON E w)) = textValue w"
    by (simp add: toJSON_def split: sum.splits)
  show "in_sync E (snd (toJSON E w)) False \<and> parses (snd (toJSON E w)) = parses w + 1"
    if "changed \<and> textValue w \<noteq> [] \<and> \<not> isl (xml2js E (textValue w))"
    using assms that
    by (auto simp: in_sync_def toJSON_def split: sum.splits)
  show "in_sync E (snd (toJSON E w)) changed \<and> parses (snd (toJSON E w)) = parses w"
    if "\<not> (changed \<and> textValue w \<noteq> [] \<and> \<not> isl (xml2js E (textValue w)))"
    using assms that
    by (cases changed; cases "json w")
       (auto simp: in_sync_def toJSON_def split: sum.splits if_splits)
qed

lemma run_ops_in_sync:
  assumes "in_sync E w changed"
  shows "fst (run_ops E ops w) = reads_uncached E ops (textValue w)
         \<and> parses (snd (run_ops E ops w))
             = parses w + recomputations E ops (textValue w) changed
         \<and> (\<exists>c. in_sync E (snd (run_ops E ops w)) c)"
  using assms
proof (induction ops arbitrary: w changed)
  case Nil
  then show ?case by auto
next
  case (Cons op ops)
  show ?case
  proof (cases op)
    case (SetText t)
    from Cons.IH[OF set_text_in_sync[of E w t]] show ?thesis
      by (simp add: SetText set_text_fields)
  next
    case Read
    obtain r w' where rw: "toJSON E w = (r, w')" by (cases "toJSON E w")
    note sync = toJSON_in_sync[OF Cons.prems]
    show ?thesis
    proof (cases "changed \<and> textValue w \<noteq> [] \<and> \<not> isl (xml2js E (textValue w))")
      case True
      with sync(3) rw have "in_sync E w' False" "parses w' = parses w + 1" by auto
      with Cons.IH[of w' False] sync(1,2) rw True show ?thesis
        by (auto simp: Read split: prod.splits)
    next
      case False
      with sync(4) rw have "in_sync E w' changed" "parses w' = parses w" by auto
      with Cons.IH[of w' changed] sync(1,2) rw False show ?thesis
        by (auto simp: Read split: prod.splits)
    qed
  qed
qed

text \<open>
  Claim C4. A wrapper holds no parse, as after its construction or a replacement of its
  raw text. Through every sequence of replacements and reads, each read returns what
  parsing the raw text of that moment gives, never the parse of an earlier text; the
  parsed structure is computed once for each read that finds the raw text changed since
  the last parse, and on no other read; and the parse in store at the end, which the
  getters read, is none or the parse of the raw text then.
\<close>

theorem parse_follows_text:
  assumes "json w = JNull"
  shows "fst (run_ops E ops w) = reads_uncached E ops (textValue w)
         \<and> parses (snd (run_ops E ops w)) = parses w + recomputations E ops (textValue w) True
         \<and> (json (snd (run_ops E ops w)) = JNull
              \<or> parse_now E (textValue (snd (run_ops E ops w)))
                   = Inr (json (snd (run_ops E ops w))))"
proof -
  have "in_sync E w True"
    using assms by (simp add: in_sync_def)
  from run_ops_in_sync[OF this, of ops] obtain c where
    eq: "fst (run_ops E ops w) = reads_uncached E ops (textValue w)"
      "parses (snd (run_ops E ops w)) = parses w + recomputations E ops (textValue w) True"
    and c: "in_sync E (snd (run_ops E ops w)) c"
    by blast
  have "json (snd (run_ops E ops w)) = JNull
          \<or> parse_now E (textValue (snd (run_ops E ops w)))
               = Inr (json (snd (run_ops E ops w)))"
    using c by (cases c) (auto simp: in_sync_def parse_now_def)
  with eq show ?thesis by simp
qed

theorem parse_follows_text_witness:
  "fst (run_ops (demo_env server_offline)
          [Read, Read, SetText xml_tns_page2, Read, SetText [], Read, SetText ''<a>'', Read, Read]
          (demo_listing xml_tns_page1))
     = [Inr (JObj tns_page1), Inr (JObj tns_page1), Inr (JObj tns_page2), Inr JNull,
        Inl (Error ''not well-formed''), Inl (Error ''not well-formed'')]
   \<and> parses (snd (run_ops (demo_env server_offline)
          [Read, Read, SetText xml_tns_page2, Read, SetText [], Read, SetText ''<a>'', Read, Read]
          (demo_listing xml_tns_page1))) = 2"
proof -
  have none: "json (demo_listing xml_tns_page1) = JNull"
    by (simp add: demo_listing_def)
  have other: "demo_xml2js ''<a>'' = Inl ''not well-formed''"
    by (simp add: demo_xml2js_def xml_order_received_def xml_order_failed_def
        xml_completed_two_def xml_completed_one_def xml_check_failed_def
        xml_disconnect_received_def xml_tns_page1_def xml_tns_page2_def)
  from parse_follows_text [OF none, of "demo_env server_offline"
      "[Read, Read, SetText xml_tns_page2, Read, SetText [], Read, SetText ''<a>'', Read, Read]"]
  show ?thesis
    by (simp add: parse_now_def demo_env_simps demo_parse_simps demo_xml_nonempty other
        demo_listing_def)
qed

end
